theory Spec2Isabelle
  imports Main "HOL-Library.Word" "HOL-Library.Sublist" "HOL-Library.Multiset"
begin

unbundle bit_operations_syntax

section \<open>URLRequestHttpJob: shared data model\<close>

subsection \<open>Net error codes\<close>

text \<open>
  The job passes results around as \<open>int\<close>: zero is success, a negative value is a net error,
  a positive value is a byte count. The error names are declared in the net error list, outside
  url_request_http_job.cc; the values below are the ones of that list.
\<close>

definition OK :: int where
  "OK = 0"

definition ERR_IO_PENDING :: int where
  "ERR_IO_PENDING = - 1"

definition ERR_CONTENT_LENGTH_MISMATCH :: int where
  "ERR_CONTENT_LENGTH_MISMATCH = - 354"

definition ERR_INCOMPLETE_CHUNKED_ENCODING :: int where
  "ERR_INCOMPLETE_CHUNKED_ENCODING = - 355"

subsection \<open>URLs\<close>

text \<open>
  GURL is declared outside this file. The record holds what the job reads from one: the
  components as strings, and the answers of \<open>is_valid()\<close>, \<open>HostIsIPAddress()\<close> and
  \<open>net::IsLocalhost(url)\<close> as booleans.
\<close>

record GURL =
  is_valid :: bool
  spec :: string
  scheme :: string
  host :: string
  path :: string
  query :: string
  HostIsIPAddress :: bool
  IsLocalhost :: bool

definition SchemeIsCryptographic :: "GURL \<Rightarrow> bool" where
  "SchemeIsCryptographic u \<longleftrightarrow> scheme u = ''https'' \<or> scheme u = ''wss''"

subsection \<open>Response headers and response info\<close>

type_synonym CertStatus = "32 word"

record SSLInfo =
  ssl_is_valid :: bool
  cert_status :: CertStatus

text \<open>
  HttpResponseHeaders is declared outside this file. The record holds the status code, the
  parsed header lines in header order (name and value), and the answer of
  \<open>GetContentLength()\<close> (the declared length, \<open>-1\<close> when none is declared).
\<close>

record HttpResponseHeaders =
  response_code :: int
  header_lines :: "(string \<times> string) list"
  GetContentLength :: int

record HttpResponseInfo =
  headers :: HttpResponseHeaders
  ssl_info :: SSLInfo
  was_cached :: bool

record HttpTransaction =
  GetResponseInfo :: "HttpResponseInfo option"
  IsReadyToRestartForAuth :: bool

subsection \<open>Request headers\<close>

text \<open>
  Modelled from the spec: HttpRequestHeaders is declared outside this file; the spec calls
  \<open>request_info_.extra_headers\<close> "the orchestrator-owned mutable extra-headers map". Keys are
  header names in the spelling of the \<open>HttpRequestHeaders::k...\<close> constants.
\<close>

type_synonym HttpRequestHeaders = "string \<rightharpoonup> string"

definition SetHeader :: "string \<Rightarrow> string \<Rightarrow> HttpRequestHeaders \<Rightarrow> HttpRequestHeaders" where
  "SetHeader k v h = h(k \<mapsto> v)"

definition SetHeaderIfMissing :: "string \<Rightarrow> string \<Rightarrow> HttpRequestHeaders \<Rightarrow> HttpRequestHeaders" where
  "SetHeaderIfMissing k v h = (if h k = None then h(k \<mapsto> v) else h)"

definition RemoveHeader :: "string \<Rightarrow> HttpRequestHeaders \<Rightarrow> HttpRequestHeaders" where
  "RemoveHeader k h = h(k := None)"

definition HasHeader :: "string \<Rightarrow> HttpRequestHeaders \<Rightarrow> bool" where
  "HasHeader k h \<longleftrightarrow> h k \<noteq> None"

definition kReferer :: string where "kReferer = ''Referer''"
definition kUserAgent :: string where "kUserAgent = ''User-Agent''"
definition kAcceptEncoding :: string where "kAcceptEncoding = ''Accept-Encoding''"
definition kAcceptLanguage :: string where "kAcceptLanguage = ''Accept-Language''"
definition kRange :: string where "kRange = ''Range''"
definition kCookie :: string where "kCookie = ''Cookie''"

subsection \<open>Cookies\<close>

datatype ExclusionReason = EXCLUDE_USER_PREFERENCES | EXCLUDE_OTHER

datatype WarningReason = WARN_BUGFIX_1166211

text \<open>
  A canonical cookie is opaque to the job. An inclusion status holds exclusion reasons and
  warnings; it is "include" when it has no exclusion reason.
\<close>

record CanonicalCookie =
  cookie_name :: string
  cookie_value :: string

record CookieInclusionStatus =
  exclusion_reasons :: "ExclusionReason set"
  warning_reasons :: "WarningReason set"

definition IsInclude :: "CookieInclusionStatus \<Rightarrow> bool" where
  "IsInclude st \<longleftrightarrow> exclusion_reasons st = {}"

definition AddExclusionReason :: "ExclusionReason \<Rightarrow> CookieInclusionStatus \<Rightarrow> CookieInclusionStatus" where
  "AddExclusionReason r st = st\<lparr>exclusion_reasons := insert r (exclusion_reasons st)\<rparr>"

definition HasOnlyExclusionReason :: "ExclusionReason \<Rightarrow> CookieInclusionStatus \<Rightarrow> bool" where
  "HasOnlyExclusionReason r st \<longleftrightarrow> exclusion_reasons st = {r}"

type_synonym CookieWithAccessResult = "CanonicalCookie \<times> CookieInclusionStatus"

type_synonym CookieAndLineWithAccessResult =
  "CanonicalCookie option \<times> string \<times> CookieInclusionStatus"

text \<open>
  The cookie options the job builds carry the same-site context; of it the job asks whether
  the context is affected by the bug fix 1166211, and has it add its warning to a status.
\<close>

record CookieOptions =
  AffectedByBugfix1166211 :: bool
  MaybeApplyBugfix1166211Warning :: "CookieInclusionStatus \<Rightarrow> CookieInclusionStatus"

subsection \<open>The job\<close>

datatype AuthState =
  AUTH_STATE_DONT_NEED_AUTH | AUTH_STATE_NEED_AUTH | AUTH_STATE_HAVE_AUTH | AUTH_STATE_CANCELED

text \<open>
  What the job hands to its surroundings: calls into the base class and the request, the
  cookie jar, the security-state store, and tasks posted to the message loop.
\<close>

datatype event =
  CallNotifyHeadersComplete int "CookieAndLineWithAccessResult list"
  | CallNotifyStartError int
  | CallGetCookieListWithOptionsAsync
  | CallStartTransaction
  | PostNotifyFinalHeadersReceived
  | CallResetTimer
  | CallAddHSTSHeader string string
  | CallProcessExpectCTHeader string string
  | CallUpdateWithResponse int
  | CallURLRequestJobNotifyHeadersComplete

type_synonym AuthCredentials = "string \<times> string"

datatype PrivacyMode =
  PRIVACY_MODE_DISABLED | PRIVACY_MODE_ENABLED | PRIVACY_MODE_ENABLED_WITHOUT_CLIENT_CERTS

type_synonym LoadFlags = "32 word"

text \<open>
  The members of the job that the functions below read or write; the first four are fields of
  \<open>request_info_\<close>, \<open>maybe_sent_cookies\<close> and \<open>maybe_stored_cookies\<close> are kept by the
  request, \<open>throttling_entry\<close> says whether the throttling entry is non-null,
  \<open>events\<close> is the log of outward calls.
\<close>

record job =
  request_info_url :: GURL
  request_info_load_flags :: LoadFlags
  request_info_privacy_mode :: PrivacyMode
  extra_headers :: HttpRequestHeaders
  auth_credentials :: AuthCredentials
  transaction :: "HttpTransaction option"
  response_info :: "HttpResponseInfo option"
  override_response_headers :: "HttpResponseHeaders option"
  receive_headers_end :: "nat option"
  proxy_auth_state :: AuthState
  server_auth_state :: AuthState
  num_cookie_lines_left :: int
  set_cookie_access_result_list :: "CookieAndLineWithAccessResult list"
  maybe_sent_cookies :: "CookieWithAccessResult list"
  maybe_stored_cookies :: "CookieAndLineWithAccessResult list"
  read_in_progress :: bool
  throttling_entry :: bool
  is_done :: bool
  events :: "event list"

text \<open>
  \<open>GetResponseHeaders()\<close> reads the override headers when there are some, the transaction's
  otherwise; \<open>None\<close> is a null transaction or a transaction with no response info, which the
  source excludes by DCHECK and would dereference.
\<close>

definition GetResponseHeaders :: "job \<Rightarrow> HttpResponseHeaders option" where
  "GetResponseHeaders j =
     (case override_response_headers j of
        Some h \<Rightarrow> Some h
      | None \<Rightarrow>
          (case transaction j of
             None \<Rightarrow> None
           | Some t \<Rightarrow> map_option headers (GetResponseInfo t)))"

definition GetResponseCode :: "job \<Rightarrow> int option" where
  "GetResponseCode j =
     (if response_info j = None then Some (- 1)
      else map_option response_code (GetResponseHeaders j))"

section \<open>Authentication\<close>

definition NeedsAuth :: "job \<Rightarrow> (bool \<times> job) option" where
  "NeedsAuth j =
     (case GetResponseCode j of
        None \<Rightarrow> None
      | Some code \<Rightarrow>
          Some (if code = - 1 then (False, j)
                else if code = 407 then
                  (if proxy_auth_state j = AUTH_STATE_CANCELED then (False, j)
                   else (True, j\<lparr>proxy_auth_state := AUTH_STATE_NEED_AUTH\<rparr>))
                else if code = 401 then
                  (if server_auth_state j = AUTH_STATE_CANCELED then (False, j)
                   else (True, j\<lparr>server_auth_state := AUTH_STATE_NEED_AUTH\<rparr>))
                else (False, j)))"

text \<open>
  \<open>CancelAuth()\<close>: the proxy side is looked at first; the DCHECKs are not part of a release
  build. The final-headers notification is posted, not called.
\<close>

definition CancelAuth :: "job \<Rightarrow> job" where
  "CancelAuth j =
     (let j1 = (if proxy_auth_state j = AUTH_STATE_NEED_AUTH
                then j\<lparr>proxy_auth_state := AUTH_STATE_CANCELED\<rparr>
                else j\<lparr>server_auth_state := AUTH_STATE_CANCELED\<rparr>)
      in j1\<lparr>events := events j1 @ [PostNotifyFinalHeadersReceived]\<rparr>)"

section \<open>Redirect safety\<close>

text \<open>
  The job factory of the request's context may be null; when present it answers
  \<open>IsSafeRedirectTarget(location)\<close>.
\<close>

definition IsSafeRedirect :: "(GURL \<Rightarrow> bool) option \<Rightarrow> GURL \<Rightarrow> bool" where
  "IsSafeRedirect job_factory location =
     (if is_valid location \<and> (scheme location = ''http'' \<or> scheme location = ''https'')
      then True
      else (case job_factory of
              None \<Rightarrow> False
            | Some IsSafeRedirectTarget \<Rightarrow> IsSafeRedirectTarget location))"

section \<open>Read completion\<close>

text \<open>
  What the read path takes from the request and the base class: the request's response
  headers (possibly null) and the count of bytes read after the decoders.
\<close>

record read_env =
  request_response_headers :: "HttpResponseHeaders option"
  postfilter_bytes_read :: int

definition ShouldFixMismatchedContentLength :: "read_env \<Rightarrow> int \<Rightarrow> bool" where
  "ShouldFixMismatchedContentLength e rv =
     (if rv = ERR_CONTENT_LENGTH_MISMATCH \<or> rv = ERR_INCOMPLETE_CHUNKED_ENCODING then
        (case request_response_headers e of
           Some h \<Rightarrow> postfilter_bytes_read e = GetContentLength h
         | None \<Rightarrow> False)
      else False)"

text \<open>
  \<open>OnReadCompleted(result)\<close> returns the job and the result it hands to
  \<open>ReadRawDataComplete\<close>.
\<close>

definition OnReadCompleted :: "read_env \<Rightarrow> job \<Rightarrow> int \<Rightarrow> job \<times> int" where
  "OnReadCompleted e j result =
     (let j1 = j\<lparr>read_in_progress := False\<rparr>;
          result1 = (if ShouldFixMismatchedContentLength e result then OK else result);
          j2 = (if result1 \<le> 0 then j1\<lparr>is_done := True\<rparr> else j1)
      in (j2, result1))"

section \<open>Response header lines\<close>

text \<open>
  Modelled from the spec: \<open>HttpResponseHeaders::EnumerateHeader\<close> is declared outside this
  file. Called again and again with one iterator it yields the values of the lines of the given
  name "in header order"; called without an iterator it yields the first of them.
\<close>

definition EnumerateHeader :: "string \<Rightarrow> HttpResponseHeaders \<Rightarrow> string list" where
  "EnumerateHeader name h = map snd (filter (\<lambda>l. fst l = name) (header_lines h))"

definition EnumerateHeader_first :: "string \<Rightarrow> HttpResponseHeaders \<Rightarrow> string option" where
  "EnumerateHeader_first name h =
     (case EnumerateHeader name h of [] \<Rightarrow> None | v # _ \<Rightarrow> Some v)"

section \<open>Strict-Transport-Security\<close>

text \<open>
  Modelled from the spec: \<open>IsCertStatusError\<close> and the mask of the error bits are declared
  with the certificate status flags, outside this file; a status is an error when "any error
  bit" is set.
\<close>

definition CERT_STATUS_ALL_ERRORS :: CertStatus where
  "CERT_STATUS_ALL_ERRORS = 0xFF00FFFF"

definition IsCertStatusError :: "CertStatus \<Rightarrow> bool" where
  "IsCertStatusError st \<longleftrightarrow> st AND CERT_STATUS_ALL_ERRORS \<noteq> 0"

text \<open>
  \<open>ProcessStrictTransportSecurityHeader()\<close>; the boolean says whether the request's context
  has a transport security state. \<open>None\<close> is the dereference of a null \<open>response_info_\<close>
  or of null response headers.
\<close>

definition ProcessStrictTransportSecurityHeader :: "bool \<Rightarrow> job \<Rightarrow> job option" where
  "ProcessStrictTransportSecurityHeader security_state j =
     (case response_info j of
        None \<Rightarrow> None
      | Some ri \<Rightarrow>
          if \<not> ssl_is_valid (ssl_info ri) \<or> IsCertStatusError (cert_status (ssl_info ri))
             \<or> \<not> security_state
          then Some j
          else if HostIsIPAddress (request_info_url j) then Some j
          else (case GetResponseHeaders j of
                  None \<Rightarrow> None
                | Some h \<Rightarrow>
                    (case EnumerateHeader_first ''Strict-Transport-Security'' h of
                       Some v \<Rightarrow>
                         Some (j\<lparr>events := events j
                                   @ [CallAddHSTSHeader (host (request_info_url j)) v]\<rparr>)
                     | None \<Rightarrow> Some j)))"

section \<open>Content decoding\<close>

datatype SourceType = TYPE_BROTLI | TYPE_DEFLATE | TYPE_GZIP | TYPE_NONE | TYPE_UNKNOWN

text \<open>
  A source stream is the raw stream of the base class, or a filter stage reading from the
  stream it wraps.
\<close>

datatype SourceStream = RawSourceStream | FilterSourceStream SourceType SourceStream

text \<open>
  What \<open>SetUpSourceStream()\<close> takes from outside this file: the parser of an encoding name,
  the request's set of accepted stream types (possibly absent), and whether the construction
  of a stage of a given type over a given upstream succeeds.
\<close>

record stream_env =
  ParseEncodingType :: "string \<Rightarrow> SourceType"
  accepted_stream_types :: "SourceType set option"
  stage_constructible :: "SourceType \<Rightarrow> SourceStream \<Rightarrow> bool"

text \<open>The first loop; \<open>None\<close> is the early \<open>return upstream\<close>.\<close>

fun collect_types :: "stream_env \<Rightarrow> string list \<Rightarrow> SourceType list \<Rightarrow> SourceType list option" where
  "collect_types e [] types = Some types"
| "collect_types e (type # rest) types =
     (case ParseEncodingType e type of
        TYPE_BROTLI \<Rightarrow>
          (case accepted_stream_types e of
             None \<Rightarrow> collect_types e rest (types @ [TYPE_BROTLI])
           | Some S \<Rightarrow> if TYPE_BROTLI \<notin> S then None
                       else collect_types e rest (types @ [TYPE_BROTLI]))
      | TYPE_DEFLATE \<Rightarrow>
          (case accepted_stream_types e of
             None \<Rightarrow> collect_types e rest (types @ [TYPE_DEFLATE])
           | Some S \<Rightarrow> if TYPE_DEFLATE \<notin> S then None
                       else collect_types e rest (types @ [TYPE_DEFLATE]))
      | TYPE_GZIP \<Rightarrow>
          (case accepted_stream_types e of
             None \<Rightarrow> collect_types e rest (types @ [TYPE_GZIP])
           | Some S \<Rightarrow> if TYPE_GZIP \<notin> S then None
                       else collect_types e rest (types @ [TYPE_GZIP]))
      | TYPE_NONE \<Rightarrow> None
      | TYPE_UNKNOWN \<Rightarrow> None)"

text \<open>
  The second loop, over the types from the last to the first; \<open>None\<close> is
  \<open>return nullptr\<close>.
\<close>

fun wrap_stages :: "stream_env \<Rightarrow> SourceType list \<Rightarrow> SourceStream \<Rightarrow> SourceStream option" where
  "wrap_stages e [] upstream = Some upstream"
| "wrap_stages e (type # r_rest) upstream =
     (case type of
        TYPE_NONE \<Rightarrow> None
      | TYPE_UNKNOWN \<Rightarrow> None
      | _ \<Rightarrow>
          if stage_constructible e type upstream
          then wrap_stages e r_rest (FilterSourceStream type upstream)
          else None)"

definition SetUpSourceStream :: "stream_env \<Rightarrow> job \<Rightarrow> SourceStream option" where
  "SetUpSourceStream e j =
     (if response_info j = None then None
      else (case GetResponseHeaders j of
              None \<Rightarrow> None
            | Some h \<Rightarrow>
                (case collect_types e (EnumerateHeader ''Content-Encoding'' h) [] of
                   None \<Rightarrow> Some RawSourceStream
                 | Some types \<Rightarrow> wrap_stages e (rev types) RawSourceStream)))"

text \<open>The stages of a stream in the order in which the body bytes pass through them.\<close>

fun decode_order :: "SourceStream \<Rightarrow> SourceType list" where
  "decode_order RawSourceStream = []"
| "decode_order (FilterSourceStream t s) = decode_order s @ [t]"

text \<open>A type for which the first loop returns the raw stream.\<close>

definition passes_through :: "stream_env \<Rightarrow> SourceType \<Rightarrow> bool" where
  "passes_through e t \<longleftrightarrow>
     t = TYPE_NONE \<or> t = TYPE_UNKNOWN
     \<or> (case accepted_stream_types e of None \<Rightarrow> False | Some S \<Rightarrow> t \<notin> S)"

section \<open>Request and collaborators\<close>

record HttpUserAgentSettings =
  GetUserAgent :: string
  GetAcceptLanguage :: string

text \<open>
  What the job reads from the request, its context and the feature list when it starts.
\<close>

record URLRequest =
  url :: GURL
  referrer :: GURL
  load_flags :: LoadFlags
  privacy_mode :: PrivacyMode
  allow_credentials :: bool
  Supports :: "SourceType \<Rightarrow> bool"
  http_user_agent_settings :: "HttpUserAgentSettings option"
  enable_brotli :: bool
  kAcceptLanguageHeader_enabled :: bool
  has_cookie_store :: bool

text \<open>
  The answer of the cookie jar to \<open>SetCanonicalCookieAsync\<close>: it runs the callback inside
  the call, or keeps it and runs it later; either way with an access result.
\<close>

datatype jar_reply =
  RunsCallbackInside CookieInclusionStatus
  | RunsCallbackLater CookieInclusionStatus

text \<open>
  The collaborators of the cookie protocols, all declared outside this file: the value of the
  load flag, the cookie parser, the admission check, the jar (asked with the number of the
  line), the filter of user-blocked cookies and the serializer of the Cookie header.
\<close>

record cookie_env =
  LOAD_DO_NOT_SAVE_COOKIES :: LoadFlags
  CanonicalCookie_Create :: "string \<Rightarrow> CanonicalCookie option \<times> CookieInclusionStatus"
  CanSetCookie :: "CanonicalCookie \<Rightarrow> bool"
  SetCanonicalCookieAsync :: "nat \<Rightarrow> CanonicalCookie \<Rightarrow> jar_reply"
  AnnotateAndMoveUserBlockedCookies ::
    "CookieWithAccessResult list \<times> CookieWithAccessResult list
     \<Rightarrow> CookieWithAccessResult list \<times> CookieWithAccessResult list"
  BuildCookieLine :: "CookieWithAccessResult list \<Rightarrow> string"

section \<open>Starting the request\<close>

text \<open>\<open>haystack.find(needle) != std::string::npos\<close>.\<close>

fun find_in :: "string \<Rightarrow> string \<Rightarrow> bool" where
  "find_in [] needle \<longleftrightarrow> needle = []"
| "find_in (c # cs) needle \<longleftrightarrow> prefix needle (c # cs) \<or> find_in cs needle"

fun JoinString :: "string list \<Rightarrow> string \<Rightarrow> string" where
  "JoinString [] sep = []"
| "JoinString [x] sep = x"
| "JoinString (x # y # rest) sep = x @ sep @ JoinString (y # rest) sep"

definition AddExtraHeaders :: "URLRequest \<Rightarrow> HttpRequestHeaders \<Rightarrow> HttpRequestHeaders" where
  "AddExtraHeaders r h =
     (let h1 =
            (if \<not> HasHeader kAcceptEncoding h then
               (if HasHeader kRange h then SetHeader kAcceptEncoding ''identity'' h
                else
                  (let advertised_encoding_names =
                         (if Supports r TYPE_GZIP then [''gzip''] else [])
                         @ (if Supports r TYPE_DEFLATE then [''deflate''] else [])
                         @ (if enable_brotli r \<and> Supports r TYPE_BROTLI
                               \<and> (SchemeIsCryptographic (url r) \<or> IsLocalhost (url r))
                            then [''br''] else [])
                   in if advertised_encoding_names \<noteq> []
                      then SetHeader kAcceptEncoding
                             (JoinString advertised_encoding_names '', '') h
                      else h))
             else h)
      in case http_user_agent_settings r of
           None \<Rightarrow> h1
         | Some settings \<Rightarrow>
             if kAcceptLanguageHeader_enabled r \<and> GetAcceptLanguage settings \<noteq> []
             then SetHeaderIfMissing kAcceptLanguage (GetAcceptLanguage settings) h1
             else h1)"

text \<open>The string literals of \<open>Start()\<close>.\<close>

definition ua_addons_opera :: string where
  "ua_addons_opera = ''Mozilla/5.0 (X11; Linux x86_64) AppleWebKit/537.36 (KHTML, like Gecko) Chrome/73.0.3683.86 Safari/537.36 OPR/60.0.3255.27 (Edition developer)''"

definition ua_chrome_google :: string where
  "ua_chrome_google = ''Mozilla/5.0 (X11; Linux x86_64) AppleWebKit/537.36 (KHTML, like Gecko) Chrome/93.0.4577.25 Safari/537.36''"

definition ua_web_whatsapp :: string where
  "ua_web_whatsapp = ''Mozilla/5.0 (X11; Linux) AppleWebKit/537.36 (KHTML, like Gecko) Chrome/93.0.4577.25 Mobile Safari/537.36''"

definition ua_messenger :: string where
  "ua_messenger = ''Mozilla/5.0 (X11; Ubuntu; Linux x86_64; rv:57.0) Gecko/20100101 Firefox/57.0''"

definition ua_facebook :: string where
  "ua_facebook = ''Mozilla/5.0 (Mobile; rv:48.0; A405DL) Gecko/48.0 Firefox/48.0 KAIOS/2.5''"

definition ua_news_google :: string where
  "ua_news_google = ''Mozilla/5.0 (Linux; Android 9; ONEPLUS A6003) AppleWebKit/537.36 (KHTML, like Gecko) Chrome/71.0.3578.99 Mobile Safari/537.36''"

definition news_google_path :: string where
  "news_google_path = ''CAAqJggKIiBDQkFTRWdvSUwyMHZNRFZxYUdjU0FtVnVHZ0pWVXlnQVAB''"

definition news_google_cookie :: string where
  "news_google_cookie = ''CONSENT=YES+srp.gws-20210610-0-RC2.en+FX+320;''"

text \<open>
  The headers \<open>Start()\<close> builds, in the order of its statements: the Referer, the default
  User-Agent, the chain of host tests, the two single host tests, \<open>AddExtraHeaders()\<close>.
\<close>

definition Start_headers :: "URLRequest \<Rightarrow> GURL \<Rightarrow> HttpRequestHeaders \<Rightarrow> HttpRequestHeaders" where
  "Start_headers r u h =
     (let h1 = RemoveHeader kReferer h;
          h2 = (if is_valid (referrer r) then SetHeader kReferer (spec (referrer r)) h1 else h1);
          h3 = SetHeaderIfMissing kUserAgent
                 (case http_user_agent_settings r of
                    Some settings \<Rightarrow> GetUserAgent settings
                  | None \<Rightarrow> []) h2;
          h4 = (if find_in (host u) ''addons.opera.com''
                then SetHeader kUserAgent ua_addons_opera h3
                else if find_in (host u) ''chrome.google.com''
                then SetHeader kUserAgent ua_chrome_google h3
                else if find_in (host u) ''web.whatsapp.com''
                then SetHeader kUserAgent ua_web_whatsapp h3
                else if find_in (host u) ''messenger.com''
                then SetHeader kUserAgent ua_messenger h3
                else if find_in (host u) ''facebook.com''
                then SetHeader kUserAgent ua_facebook h3
                else if find_in (host u) ''news.google.com'' \<and> find_in (path u) news_google_path
                then SetHeader ''Cookie'' news_google_cookie
                       (SetHeader kUserAgent ua_news_google h3)
                else h3);
          h5 = (if find_in (host u) ''washingtonpost.com''
                then SetHeader ''X-Forwarded-For'' ''1.1.1.1'' h4 else h4);
          h6 = (if find_in (host u) ''amazon'' \<and> find_in (query u) ''kbdirect''
                then RemoveHeader kReferer h5 else h5)
      in AddExtraHeaders r h6)"

text \<open>
  The functions below end where the job hands over: to the cookie jar, which answers through
  a callback, or to \<open>StartTransaction()\<close>. Either call is recorded in the log and not
  followed. \<open>StartTransaction()\<close> passes the extra headers to the network delegate's hook,
  which may change them, and \<open>StartTransactionInternal()\<close> starts or restarts the
  transaction and resets \<open>auth_credentials_\<close>; the states returned here are the ones
  \<open>StartTransaction()\<close> is called in.
\<close>

definition AddCookieHeaderAndStart :: "URLRequest \<Rightarrow> job \<Rightarrow> job" where
  "AddCookieHeaderAndStart r j =
     (if has_cookie_store r \<and> allow_credentials r
      then j\<lparr>events := events j @ [CallGetCookieListWithOptionsAsync]\<rparr>
      else j\<lparr>events := events j @ [CallStartTransaction]\<rparr>)"

definition Start :: "URLRequest \<Rightarrow> job \<Rightarrow> job" where
  "Start r j =
     (let j1 = j\<lparr>request_info_url := url r,
                 request_info_load_flags := load_flags r,
                 request_info_privacy_mode := privacy_mode r\<rparr>;
          j2 = j1\<lparr>extra_headers := Start_headers r (request_info_url j1) (extra_headers j1)\<rparr>
      in AddCookieHeaderAndStart r j2)"

text \<open>
  \<open>SetCookieHeaderAndStart\<close>, the callback of the jar's cookie list: the cookies the jar
  would include and the ones it excludes.
\<close>

definition SetCookieHeaderAndStart ::
  "cookie_env \<Rightarrow> CookieOptions \<Rightarrow> CookieWithAccessResult list \<Rightarrow> CookieWithAccessResult list
   \<Rightarrow> job \<Rightarrow> job" where
  "SetCookieHeaderAndStart e options cookies_with_access_result_list excluded_list j =
     (let (maybe_included_cookies, excluded_cookies) =
            (if request_info_privacy_mode j \<noteq> PRIVACY_MODE_DISABLED
             then ([], map (\<lambda>(c, st). (c, AddExclusionReason EXCLUDE_USER_PREFERENCES st))
                         (excluded_list @ cookies_with_access_result_list))
             else AnnotateAndMoveUserBlockedCookies e
                    (cookies_with_access_result_list, excluded_list));
          j1 = (if request_info_privacy_mode j = PRIVACY_MODE_DISABLED
                   \<and> maybe_included_cookies \<noteq> []
                then j\<lparr>extra_headers :=
                         SetHeader kCookie (BuildCookieLine e maybe_included_cookies)
                           (extra_headers j)\<rparr>
                else j);
          maybe_sent = excluded_cookies @ maybe_included_cookies;
          maybe_sent1 =
            (if AffectedByBugfix1166211 options
             then map (\<lambda>(c, st). if \<not> HasOnlyExclusionReason EXCLUDE_USER_PREFERENCES st
                                 then (c, MaybeApplyBugfix1166211Warning options st)
                                 else (c, st)) maybe_sent
             else maybe_sent)
      in j1\<lparr>maybe_sent_cookies := maybe_sent1,
            events := events j1 @ [CallStartTransaction]\<rparr>)"

section \<open>Restarting with authentication\<close>

definition RestartTransactionWithAuth :: "URLRequest \<Rightarrow> AuthCredentials \<Rightarrow> job \<Rightarrow> job" where
  "RestartTransactionWithAuth r credentials j =
     (let j1 = j\<lparr>auth_credentials := credentials\<rparr>;
          j2 = j1\<lparr>response_info := None,
                  override_response_headers := None,
                  receive_headers_end := None\<rparr>;
          j3 = j2\<lparr>events := events j2 @ [CallResetTimer]\<rparr>;
          j4 = j3\<lparr>extra_headers := RemoveHeader kCookie (extra_headers j3)\<rparr>;
          j5 = j4\<lparr>maybe_sent_cookies := [], maybe_stored_cookies := []\<rparr>
      in AddCookieHeaderAndStart r j5)"

section \<open>Headers complete\<close>

text \<open>
  Modelled from the spec: \<open>HttpResponseHeaders::GetNormalizedHeader\<close> is declared outside
  this file; the certificate-transparency header "accepts a fully-merged (not first-only)
  value", the values of all lines of the name joined by a comma and a space.
\<close>

definition GetNormalizedHeader :: "string \<Rightarrow> HttpResponseHeaders \<Rightarrow> string option" where
  "GetNormalizedHeader name h =
     (case EnumerateHeader name h of [] \<Rightarrow> None | v # vs \<Rightarrow> Some (JoinString (v # vs) '', ''))"

definition ProcessExpectCTHeader :: "bool \<Rightarrow> job \<Rightarrow> job option" where
  "ProcessExpectCTHeader security_state j =
     (case response_info j of
        None \<Rightarrow> None
      | Some ri \<Rightarrow>
          if \<not> ssl_is_valid (ssl_info ri) \<or> IsCertStatusError (cert_status (ssl_info ri))
             \<or> \<not> security_state
          then Some j
          else (case GetResponseHeaders j of
                  None \<Rightarrow> None
                | Some h \<Rightarrow>
                    (case GetNormalizedHeader ''Expect-CT'' h of
                       Some v \<Rightarrow>
                         Some (j\<lparr>events := events j
                                   @ [CallProcessExpectCTHeader v (host (request_info_url j))]\<rparr>)
                     | None \<Rightarrow> Some j)))"

text \<open>
  \<open>NotifyHeadersComplete()\<close>. The entry is logged with the counter and the result list it
  finds. The response snapshot is taken from the transaction, the throttling entry is told the
  response code of a response that is not from the cache, the two security headers are
  processed, and the result list is moved to the request. A transaction that is ready to
  restart for authentication is then restarted with empty credentials, which clears the list
  again; otherwise the notification of the base class is called. The boolean says whether the
  context has a transport security state; \<open>None\<close> is the dereference of a null transaction
  or of null response info.
\<close>

definition NotifyHeadersComplete :: "URLRequest \<Rightarrow> bool \<Rightarrow> job \<Rightarrow> job option" where
  "NotifyHeadersComplete r security_state j =
     (case transaction j of
        None \<Rightarrow> None
      | Some t \<Rightarrow>
          (let j1 = j\<lparr>events := events j
                       @ [CallNotifyHeadersComplete (num_cookie_lines_left j)
                            (set_cookie_access_result_list j)]\<rparr>;
               j2 = j1\<lparr>response_info := GetResponseInfo t\<rparr>
           in case response_info j2 of
                None \<Rightarrow> None
              | Some ri \<Rightarrow>
                  (case (if \<not> was_cached ri \<and> throttling_entry j2
                         then (case GetResponseCode j2 of
                                 None \<Rightarrow> None
                               | Some code \<Rightarrow>
                                   Some (j2\<lparr>events := events j2
                                             @ [CallUpdateWithResponse code]\<rparr>))
                         else Some j2) of
                     None \<Rightarrow> None
                   | Some j3 \<Rightarrow>
                       (case ProcessStrictTransportSecurityHeader security_state j3 of
                          None \<Rightarrow> None
                        | Some j4 \<Rightarrow>
                            (case ProcessExpectCTHeader security_state j4 of
                               None \<Rightarrow> None
                             | Some j5 \<Rightarrow>
                                 (let j6 = j5\<lparr>maybe_stored_cookies :=
                                                 set_cookie_access_result_list j5,
                                               set_cookie_access_result_list := []\<rparr>
                                  in Some (if IsReadyToRestartForAuth t
                                           then RestartTransactionWithAuth r ([], []) j6
                                           else j6\<lparr>events := events j6
                                                  @ [CallURLRequestJobNotifyHeadersComplete]\<rparr>)))))))"

section \<open>Saving cookies and signalling headers complete\<close>

definition OnSetCookieResult ::
  "URLRequest \<Rightarrow> bool \<Rightarrow> CookieOptions \<Rightarrow> CanonicalCookie option \<Rightarrow> string
   \<Rightarrow> CookieInclusionStatus \<Rightarrow> job \<Rightarrow> job option" where
  "OnSetCookieResult r security_state options cookie cookie_string access_result j =
     (let access_result1 =
            (if AffectedByBugfix1166211 options
             then MaybeApplyBugfix1166211Warning options access_result
             else access_result);
          j1 = j\<lparr>set_cookie_access_result_list :=
                   set_cookie_access_result_list j @ [(cookie, cookie_string, access_result1)]\<rparr>;
          j2 = j1\<lparr>num_cookie_lines_left := num_cookie_lines_left j1 - 1\<rparr>
      in if num_cookie_lines_left j2 = 0 then NotifyHeadersComplete r security_state j2
         else Some j2)"

text \<open>
  The enumeration loop over the Set-Cookie lines. The state is the job and the callbacks the
  jar has kept, each with the access result it will deliver; \<open>None\<close> is a null dereference:
  of a null cookie with an "include" status, which the source excludes by DCHECK, or inside
  \<open>NotifyHeadersComplete()\<close>.
\<close>

fun cookie_loop ::
  "URLRequest \<Rightarrow> bool \<Rightarrow> cookie_env \<Rightarrow> CookieOptions \<Rightarrow> nat \<Rightarrow> string list
   \<Rightarrow> job \<times> CookieAndLineWithAccessResult list
   \<Rightarrow> (job \<times> CookieAndLineWithAccessResult list) option" where
  "cookie_loop r security_state e options i [] (j, pending) = Some (j, pending)"
| "cookie_loop r security_state e options i (cookie_string # rest) (j, pending) =
     (let j1 = j\<lparr>num_cookie_lines_left := num_cookie_lines_left j + 1\<rparr>;
          (cookie, returned_status) = CanonicalCookie_Create e cookie_string
      in case cookie of
           None \<Rightarrow>
             if IsInclude returned_status then None
             else (case OnSetCookieResult r security_state options None cookie_string
                          returned_status j1 of
                     None \<Rightarrow> None
                   | Some j2 \<Rightarrow>
                       cookie_loop r security_state e options (Suc i) rest (j2, pending))
         | Some c \<Rightarrow>
             (let cookie_to_return = (if IsInclude returned_status then Some c else None);
                  returned_status1 =
                    (if \<not> CanSetCookie e c
                     then AddExclusionReason EXCLUDE_USER_PREFERENCES returned_status
                     else returned_status)
              in if \<not> IsInclude returned_status1
                 then (case OnSetCookieResult r security_state options cookie_to_return
                              cookie_string returned_status1 j1 of
                         None \<Rightarrow> None
                       | Some j2 \<Rightarrow>
                           cookie_loop r security_state e options (Suc i) rest (j2, pending))
                 else (case SetCanonicalCookieAsync e i c of
                         RunsCallbackInside access_result \<Rightarrow>
                           (case OnSetCookieResult r security_state options cookie_to_return
                                   cookie_string access_result j1 of
                              None \<Rightarrow> None
                            | Some j2 \<Rightarrow>
                                cookie_loop r security_state e options (Suc i) rest
                                  (j2, pending))
                       | RunsCallbackLater access_result \<Rightarrow>
                           cookie_loop r security_state e options (Suc i) rest
                             (j1, pending @ [(cookie_to_return, cookie_string, access_result)]))))"

text \<open>
  \<open>SaveCookiesAndNotifyHeadersComplete(result)\<close>. \<open>None\<close> is the failed CHECK on the counter
  at entry, or a null dereference.
\<close>

definition SaveCookiesAndNotifyHeadersComplete ::
  "URLRequest \<Rightarrow> bool \<Rightarrow> cookie_env \<Rightarrow> CookieOptions \<Rightarrow> int \<Rightarrow> job
   \<Rightarrow> (job \<times> CookieAndLineWithAccessResult list) option" where
  "SaveCookiesAndNotifyHeadersComplete r security_state e options result j =
     (if num_cookie_lines_left j \<noteq> 0 then None
      else if result \<noteq> OK
      then Some (j\<lparr>events := events j @ [CallNotifyStartError result]\<rparr>, [])
      else if request_info_load_flags j AND LOAD_DO_NOT_SAVE_COOKIES e \<noteq> 0
              \<or> \<not> has_cookie_store r
      then (case NotifyHeadersComplete r security_state j of
              None \<Rightarrow> None
            | Some j1 \<Rightarrow> Some (j1, []))
      else (case GetResponseHeaders j of
              None \<Rightarrow> None
            | Some h \<Rightarrow>
                (case cookie_loop r security_state e options 0 (EnumerateHeader ''Set-Cookie'' h)
                        (j\<lparr>num_cookie_lines_left := 1\<rparr>, []) of
                   None \<Rightarrow> None
                 | Some (j1, pending) \<Rightarrow>
                     (let j2 = j1\<lparr>num_cookie_lines_left := num_cookie_lines_left j1 - 1\<rparr>
                      in if num_cookie_lines_left j2 = 0
                         then (case NotifyHeadersComplete r security_state j2 of
                                 None \<Rightarrow> None
                               | Some j3 \<Rightarrow> Some (j3, pending))
                         else Some (j2, pending)))))"

text \<open>
  The callbacks the jar has kept run after the function has returned, one at a time, in the
  order the jar chooses.
\<close>

fun run_callbacks ::
  "URLRequest \<Rightarrow> bool \<Rightarrow> CookieOptions \<Rightarrow> CookieAndLineWithAccessResult list \<Rightarrow> job
   \<Rightarrow> job option" where
  "run_callbacks r security_state options [] j = Some j"
| "run_callbacks r security_state options ((cookie, cookie_string, access_result) # rest) j =
     (case OnSetCookieResult r security_state options cookie cookie_string access_result j of
        None \<Rightarrow> None
      | Some j1 \<Rightarrow> run_callbacks r security_state options rest j1)"

text \<open>The invocations of \<open>NotifyHeadersComplete()\<close> in the log.\<close>

fun is_headers_complete :: "event \<Rightarrow> bool" where
  "is_headers_complete (CallNotifyHeadersComplete n l) = True"
| "is_headers_complete _ = False"

definition headers_complete_calls :: "job \<Rightarrow> event list" where
  "headers_complete_calls j = filter is_headers_complete (events j)"

text \<open>The entry of a result list as the callback stores it.\<close>

definition stored_entry ::
  "CookieOptions \<Rightarrow> CookieAndLineWithAccessResult \<Rightarrow> CookieAndLineWithAccessResult" where
  "stored_entry options cb =
     (case cb of (cookie, cookie_string, access_result) \<Rightarrow>
        (cookie, cookie_string,
         if AffectedByBugfix1166211 options
         then MaybeApplyBugfix1166211Warning options access_result
         else access_result))"

text \<open>No line parses to a null cookie with an "include" status.\<close>

definition create_consistent :: "cookie_env \<Rightarrow> string list \<Rightarrow> bool" where
  "create_consistent e ls =
     list_all (\<lambda>l. fst (CanonicalCookie_Create e l) = None
                   \<longrightarrow> \<not> IsInclude (snd (CanonicalCookie_Create e l))) ls"

section \<open>Example inputs\<close>

text \<open>The job as the constructor leaves it, and a job that has received a response.\<close>

definition empty_GURL :: GURL where
  "empty_GURL = \<lparr>is_valid = False, spec = [], scheme = [], host = [], path = [], query = [],
     HostIsIPAddress = False, IsLocalhost = False\<rparr>"

definition URLRequestHttpJob_init :: job where
  "URLRequestHttpJob_init =
     \<lparr>request_info_url = empty_GURL,
      request_info_load_flags = 0,
      request_info_privacy_mode = PRIVACY_MODE_DISABLED,
      extra_headers = Map.empty,
      auth_credentials = ([], []),
      transaction = None,
      response_info = None,
      override_response_headers = None,
      receive_headers_end = None,
      proxy_auth_state = AUTH_STATE_DONT_NEED_AUTH,
      server_auth_state = AUTH_STATE_DONT_NEED_AUTH,
      num_cookie_lines_left = 0,
      set_cookie_access_result_list = [],
      maybe_sent_cookies = [],
      maybe_stored_cookies = [],
      read_in_progress = False,
      throttling_entry = False,
      is_done = False,
      events = []\<rparr>"

definition response_with :: "int \<Rightarrow> (string \<times> string) list \<Rightarrow> int \<Rightarrow> SSLInfo \<Rightarrow> HttpResponseInfo" where
  "response_with code ls len ssl =
     \<lparr>headers = \<lparr>response_code = code, header_lines = ls, GetContentLength = len\<rparr>,
      ssl_info = ssl, was_cached = False\<rparr>"

definition job_with_response :: "HttpResponseInfo \<Rightarrow> job" where
  "job_with_response ri =
     URLRequestHttpJob_init
       \<lparr>transaction := Some \<lparr>GetResponseInfo = Some ri, IsReadyToRestartForAuth = False\<rparr>,
        response_info := Some ri\<rparr>"

text \<open>Responses with status 407 and 401, over a connection without TLS.\<close>

definition no_ssl :: SSLInfo where
  "no_ssl = \<lparr>ssl_is_valid = False, cert_status = 0\<rparr>"

definition job_407 :: job where
  "job_407 = job_with_response (response_with 407 [] (- 1) no_ssl)"

definition job_401 :: job where
  "job_401 = job_with_response (response_with 401 [] (- 1) no_ssl)"

text \<open>A valid URL from its scheme, host, path and query.\<close>

definition url_of :: "string \<Rightarrow> string \<Rightarrow> string \<Rightarrow> string \<Rightarrow> GURL" where
  "url_of s h p q =
     \<lparr>is_valid = True, spec = s @ ''://'' @ h @ p @ (if q = [] then [] else ''?'' @ q),
      scheme = s, host = h, path = p, query = q, HostIsIPAddress = False, IsLocalhost = False\<rparr>"

text \<open>A read whose count of decoded bytes is the declared content length, 10.\<close>

definition read_env_10 :: read_env where
  "read_env_10 =
     \<lparr>request_response_headers =
        Some \<lparr>response_code = 200, header_lines = [(''Content-Length'', ''10'')],
              GetContentLength = 10\<rparr>,
      postfilter_bytes_read = 10\<rparr>"

text \<open>A response with two Strict-Transport-Security lines, over TLS without and with a
  certificate error, to a host name and to an IP literal.\<close>

definition ssl_ok :: SSLInfo where
  "ssl_ok = \<lparr>ssl_is_valid = True, cert_status = 0\<rparr>"

definition CERT_STATUS_DATE_INVALID :: CertStatus where
  "CERT_STATUS_DATE_INVALID = 2"

definition hsts_lines :: "(string \<times> string) list" where
  "hsts_lines =
     [(''Content-Type'', ''text/html''),
      (''Strict-Transport-Security'', ''max-age=31536000''),
      (''Strict-Transport-Security'', ''max-age=0'')]"

definition hsts_job :: "SSLInfo \<Rightarrow> GURL \<Rightarrow> job" where
  "hsts_job ssl u = (job_with_response (response_with 200 hsts_lines (- 1) ssl))\<lparr>request_info_url := u\<rparr>"

text \<open>Responses with Content-Encoding tokens, a parser of the usual encoding names, and stage
  constructors that always succeed.\<close>

definition encoding_lines :: "string list \<Rightarrow> (string \<times> string) list" where
  "encoding_lines toks = map (\<lambda>t. (''Content-Encoding'', t)) toks"

definition parse_example :: "string \<Rightarrow> SourceType" where
  "parse_example s =
     (if s = [] then TYPE_NONE
      else if s = ''br'' then TYPE_BROTLI
      else if s = ''deflate'' then TYPE_DEFLATE
      else if s = ''gzip'' \<or> s = ''x-gzip'' then TYPE_GZIP
      else TYPE_UNKNOWN)"

definition stream_env_example :: stream_env where
  "stream_env_example =
     \<lparr>ParseEncodingType = parse_example, accepted_stream_types = None,
      stage_constructible = (\<lambda>t s. True)\<rparr>"

definition encoded_job :: "string list \<Rightarrow> job" where
  "encoded_job toks = job_with_response (response_with 200 (encoding_lines toks) (- 1) no_ssl)"

text \<open>A cookie parser that rejects the line "bad", an admission check that blocks the cookie
  "blocked", and a jar that runs the callback inside the call for the cookie "inline" and
  later for every other one.\<close>

definition status_include :: CookieInclusionStatus where
  "status_include = \<lparr>exclusion_reasons = {}, warning_reasons = {}\<rparr>"

definition cookie_named :: "string \<Rightarrow> CanonicalCookie" where
  "cookie_named n = \<lparr>cookie_name = n, cookie_value = []\<rparr>"

definition cookie_env_example :: cookie_env where
  "cookie_env_example =
     \<lparr>LOAD_DO_NOT_SAVE_COOKIES = 64,
      CanonicalCookie_Create =
        (\<lambda>l. if l = ''bad'' then (None, status_include\<lparr>exclusion_reasons := {EXCLUDE_OTHER}\<rparr>)
              else (Some (cookie_named l), status_include)),
      CanSetCookie = (\<lambda>c. cookie_name c \<noteq> ''blocked''),
      SetCanonicalCookieAsync =
        (\<lambda>i c. if cookie_name c = ''inline'' then RunsCallbackInside status_include
                else RunsCallbackLater status_include),
      AnnotateAndMoveUserBlockedCookies = (\<lambda>p. p),
      BuildCookieLine = (\<lambda>cs. JoinString (map (\<lambda>(c, st). cookie_name c) cs) ''; '')\<rparr>"

definition cookie_options_example :: CookieOptions where
  "cookie_options_example =
     \<lparr>AffectedByBugfix1166211 = False, MaybeApplyBugfix1166211Warning = (\<lambda>st. st)\<rparr>"

definition set_cookie_lines :: "string list \<Rightarrow> (string \<times> string) list" where
  "set_cookie_lines ls = map (\<lambda>l. (''Set-Cookie'', l)) ls"

definition job_after_start :: "(string \<times> string) list \<Rightarrow> job" where
  "job_after_start ls =
     (job_with_response (response_with 200 ls (- 1) no_ssl))\<lparr>response_info := None\<rparr>"

text \<open>A request with credentials allowed, a cookie store, all encodings supported and default
  user-agent settings.\<close>

definition request_example :: URLRequest where
  "request_example =
     \<lparr>url = url_of ''https'' ''example.com'' ''/'' [],
      referrer = empty_GURL,
      load_flags = 0,
      privacy_mode = PRIVACY_MODE_DISABLED,
      allow_credentials = True,
      Supports = (\<lambda>t. True),
      http_user_agent_settings =
        Some \<lparr>GetUserAgent = ''DefaultAgent/1.0'', GetAcceptLanguage = ''en-US,en''\<rparr>,
      enable_brotli = True,
      kAcceptLanguageHeader_enabled = True,
      has_cookie_store = True\<rparr>"

text \<open>A response with four Set-Cookie lines: one rejected, one stored inside the call, two
  stored later.\<close>

definition four_cookie_job :: job where
  "four_cookie_job = job_after_start (set_cookie_lines [''bad'', ''inline'', ''late1'', ''late2''])"

definition later_callback :: "string \<Rightarrow> CookieAndLineWithAccessResult" where
  "later_callback l = (Some (cookie_named l), l, status_include)"

text \<open>Requests to a given URL, and jobs whose caller has set the given extra headers.\<close>

definition request_to :: "GURL \<Rightarrow> URLRequest" where
  "request_to u = request_example\<lparr>url := u\<rparr>"

definition job_with_headers :: "HttpRequestHeaders \<Rightarrow> job" where
  "job_with_headers h = URLRequestHttpJob_init\<lparr>extra_headers := h\<rparr>"

definition valid_referrer :: GURL where
  "valid_referrer = url_of ''https'' ''origin.example'' ''/page'' []"

definition news_path :: string where
  "news_path = ''/topics/CAAqJggKIiBDQkFTRWdvSUwyMHZNRFZxYUdjU0FtVnVHZ0pWVXlnQVAB''"

text \<open>A job that has sent a Cookie header and an Accept header and has received a 407.\<close>

definition job_before_restart :: job where
  "job_before_restart = job_407\<lparr>extra_headers := [kCookie \<mapsto> ''old=1'', ''Accept'' \<mapsto> ''*/*'']\<rparr>"

text \<open>
  The same response on a transaction that is ready to restart for authentication, and the
  results the loop stores for the four lines before it ends.
\<close>

definition ready_to_restart :: "job \<Rightarrow> job" where
  "ready_to_restart j =
     j\<lparr>transaction := map_option (\<lambda>t. t\<lparr>IsReadyToRestartForAuth := True\<rparr>) (transaction j)\<rparr>"

definition four_cookie_response :: HttpResponseInfo where
  "four_cookie_response =
     response_with 200 (set_cookie_lines [''bad'', ''inline'', ''late1'', ''late2'']) (- 1) no_ssl"

definition stored_inside :: "CookieAndLineWithAccessResult list" where
  "stored_inside =
     [(None, ''bad'', status_include\<lparr>exclusion_reasons := {EXCLUDE_OTHER}\<rparr>),
      (Some (cookie_named ''inline''), ''inline'', status_include)]"

section \<open>Properties: authentication\<close>

lemma GetResponseCode_proxy_auth_state:
  "GetResponseCode (j\<lparr>proxy_auth_state := a\<rparr>) = GetResponseCode j"
  by (simp add: GetResponseCode_def GetResponseHeaders_def cong: option.case_cong)

lemma GetResponseCode_server_auth_state:
  "GetResponseCode (j\<lparr>server_auth_state := a\<rparr>) = GetResponseCode j"
  by (simp add: GetResponseCode_def GetResponseHeaders_def cong: option.case_cong)

lemma GetResponseCode_events:
  "GetResponseCode (j\<lparr>events := a\<rparr>) = GetResponseCode j"
  by (simp add: GetResponseCode_def GetResponseHeaders_def cong: option.case_cong)

lemma GetResponseCode_CancelAuth: "GetResponseCode (CancelAuth j) = GetResponseCode j"
  by (simp add: CancelAuth_def Let_def GetResponseCode_events
      GetResponseCode_proxy_auth_state GetResponseCode_server_auth_state)

lemma job_407_code: "GetResponseCode job_407 = Some 407"
  by (simp add: job_407_def job_with_response_def response_with_def URLRequestHttpJob_init_def
      GetResponseCode_def GetResponseHeaders_def)

lemma job_401_code: "GetResponseCode job_401 = Some 401"
  by (simp add: job_401_def job_with_response_def response_with_def URLRequestHttpJob_init_def
      GetResponseCode_def GetResponseHeaders_def)

lemma job_407_states:
  "proxy_auth_state job_407 = AUTH_STATE_DONT_NEED_AUTH"
  by (simp add: job_407_def job_with_response_def URLRequestHttpJob_init_def)

lemma job_401_states:
  "proxy_auth_state job_401 = AUTH_STATE_DONT_NEED_AUTH"
  "server_auth_state job_401 = AUTH_STATE_DONT_NEED_AUTH"
  by (simp_all add: job_401_def job_with_response_def URLRequestHttpJob_init_def)

text \<open>
  C5: \<open>NeedsAuth()\<close> returns true and marks the proxy side Needed exactly for status 407 with
  the proxy side not Canceled, returns true and marks the server side Needed exactly for status
  401 with the server side not Canceled, and returns false for every other status; once
  \<open>CancelAuth()\<close> has set the side marked Needed to Canceled, \<open>NeedsAuth()\<close> for the same
  status returns false. For 401 the side that \<open>CancelAuth()\<close> cancels is the server side when
  the proxy side is not Needed, the proxy side being looked at first.
\<close>

theorem NeedsAuth_by_status:
  assumes "GetResponseCode j = Some code"
  shows "(code = 407 \<and> proxy_auth_state j \<noteq> AUTH_STATE_CANCELED \<longrightarrow>
            NeedsAuth j = Some (True, j\<lparr>proxy_auth_state := AUTH_STATE_NEED_AUTH\<rparr>))
       \<and> (code = 401 \<and> server_auth_state j \<noteq> AUTH_STATE_CANCELED \<longrightarrow>
            NeedsAuth j = Some (True, j\<lparr>server_auth_state := AUTH_STATE_NEED_AUTH\<rparr>))
       \<and> (\<not> (code = 407 \<and> proxy_auth_state j \<noteq> AUTH_STATE_CANCELED)
          \<and> \<not> (code = 401 \<and> server_auth_state j \<noteq> AUTH_STATE_CANCELED) \<longrightarrow>
            NeedsAuth j = Some (False, j))
       \<and> (code = 407 \<and> NeedsAuth j = Some (True, j1) \<longrightarrow>
            proxy_auth_state (CancelAuth j1) = AUTH_STATE_CANCELED
            \<and> NeedsAuth (CancelAuth j1) = Some (False, CancelAuth j1))
       \<and> (code = 401 \<and> proxy_auth_state j \<noteq> AUTH_STATE_NEED_AUTH
            \<and> NeedsAuth j = Some (True, j1) \<longrightarrow>
            server_auth_state (CancelAuth j1) = AUTH_STATE_CANCELED
            \<and> NeedsAuth (CancelAuth j1) = Some (False, CancelAuth j1))"
proof -
  have c: "GetResponseCode (CancelAuth j1) = GetResponseCode j1" for j1
    by (rule GetResponseCode_CancelAuth)
  have p: "GetResponseCode (j\<lparr>proxy_auth_state := a\<rparr>) = Some code" for a
    using assms by (simp add: GetResponseCode_proxy_auth_state)
  have s: "GetResponseCode (j\<lparr>server_auth_state := a\<rparr>) = Some code" for a
    using assms by (simp add: GetResponseCode_server_auth_state)
  have 1: "code = 407 \<and> proxy_auth_state j \<noteq> AUTH_STATE_CANCELED \<longrightarrow>
            NeedsAuth j = Some (True, j\<lparr>proxy_auth_state := AUTH_STATE_NEED_AUTH\<rparr>)"
    using assms by (simp add: NeedsAuth_def)
  have 2: "code = 401 \<and> server_auth_state j \<noteq> AUTH_STATE_CANCELED \<longrightarrow>
            NeedsAuth j = Some (True, j\<lparr>server_auth_state := AUTH_STATE_NEED_AUTH\<rparr>)"
    using assms by (simp add: NeedsAuth_def)
  have 3: "\<not> (code = 407 \<and> proxy_auth_state j \<noteq> AUTH_STATE_CANCELED)
          \<and> \<not> (code = 401 \<and> server_auth_state j \<noteq> AUTH_STATE_CANCELED) \<longrightarrow>
            NeedsAuth j = Some (False, j)"
    using assms by (simp add: NeedsAuth_def)
  have 4: "code = 407 \<and> NeedsAuth j = Some (True, j1) \<longrightarrow>
            proxy_auth_state (CancelAuth j1) = AUTH_STATE_CANCELED
            \<and> NeedsAuth (CancelAuth j1) = Some (False, CancelAuth j1)"
  proof
    assume h: "code = 407 \<and> NeedsAuth j = Some (True, j1)"
    then have j1: "j1 = j\<lparr>proxy_auth_state := AUTH_STATE_NEED_AUTH\<rparr>"
      using assms by (simp add: NeedsAuth_def split: if_splits)
    have px: "proxy_auth_state (CancelAuth j1) = AUTH_STATE_CANCELED"
      by (simp add: j1 CancelAuth_def Let_def)
    have "GetResponseCode (CancelAuth j1) = Some 407"
      using h p [of AUTH_STATE_NEED_AUTH] by (simp add: c j1)
    then have "NeedsAuth (CancelAuth j1) = Some (False, CancelAuth j1)"
      using px by (simp add: NeedsAuth_def)
    with px show "proxy_auth_state (CancelAuth j1) = AUTH_STATE_CANCELED
            \<and> NeedsAuth (CancelAuth j1) = Some (False, CancelAuth j1)" by simp
  qed
  have 5: "code = 401 \<and> proxy_auth_state j \<noteq> AUTH_STATE_NEED_AUTH
            \<and> NeedsAuth j = Some (True, j1) \<longrightarrow>
            server_auth_state (CancelAuth j1) = AUTH_STATE_CANCELED
            \<and> NeedsAuth (CancelAuth j1) = Some (False, CancelAuth j1)"
  proof
    assume h: "code = 401 \<and> proxy_auth_state j \<noteq> AUTH_STATE_NEED_AUTH
            \<and> NeedsAuth j = Some (True, j1)"
    then have j1: "j1 = j\<lparr>server_auth_state := AUTH_STATE_NEED_AUTH\<rparr>"
      using assms by (simp add: NeedsAuth_def split: if_splits)
    have sx: "server_auth_state (CancelAuth j1) = AUTH_STATE_CANCELED"
      using h by (simp add: j1 CancelAuth_def Let_def)
    have "GetResponseCode (CancelAuth j1) = Some 401"
      using h s [of AUTH_STATE_NEED_AUTH] by (simp add: c j1)
    then have "NeedsAuth (CancelAuth j1) = Some (False, CancelAuth j1)"
      using sx by (simp add: NeedsAuth_def)
    with sx show "server_auth_state (CancelAuth j1) = AUTH_STATE_CANCELED
            \<and> NeedsAuth (CancelAuth j1) = Some (False, CancelAuth j1)" by simp
  qed
  from 1 2 3 4 5 show ?thesis by blast
qed

theorem NeedsAuth_by_status_witness:
  "NeedsAuth job_407 = Some (True, job_407\<lparr>proxy_auth_state := AUTH_STATE_NEED_AUTH\<rparr>)
   \<and> NeedsAuth (CancelAuth (job_407\<lparr>proxy_auth_state := AUTH_STATE_NEED_AUTH\<rparr>))
       = Some (False, CancelAuth (job_407\<lparr>proxy_auth_state := AUTH_STATE_NEED_AUTH\<rparr>))
   \<and> NeedsAuth job_401 = Some (True, job_401\<lparr>server_auth_state := AUTH_STATE_NEED_AUTH\<rparr>)
   \<and> NeedsAuth (CancelAuth (job_401\<lparr>server_auth_state := AUTH_STATE_NEED_AUTH\<rparr>))
       = Some (False, CancelAuth (job_401\<lparr>server_auth_state := AUTH_STATE_NEED_AUTH\<rparr>))"
  using NeedsAuth_by_status [OF job_407_code,
          of "job_407\<lparr>proxy_auth_state := AUTH_STATE_NEED_AUTH\<rparr>"]
        NeedsAuth_by_status [OF job_401_code,
          of "job_401\<lparr>server_auth_state := AUTH_STATE_NEED_AUTH\<rparr>"]
  by (simp add: job_407_states job_401_states)

section \<open>Properties: redirect safety\<close>

text \<open>
  C8, as amended: \<open>IsSafeRedirect\<close> returns true for every valid target whose scheme is http
  or https, whatever the job factory; for every other target (another scheme, or an invalid
  URL) it returns true exactly when the job factory is present and approves the target, and
  false when the job factory is absent.
\<close>

theorem IsSafeRedirect_by_scheme:
  "(is_valid location \<and> (scheme location = ''http'' \<or> scheme location = ''https'') \<longrightarrow>
      IsSafeRedirect job_factory location)
   \<and> (\<not> (is_valid location \<and> (scheme location = ''http'' \<or> scheme location = ''https'')) \<longrightarrow>
        (IsSafeRedirect job_factory location
           \<longleftrightarrow> (\<exists>IsSafeRedirectTarget. job_factory = Some IsSafeRedirectTarget
                  \<and> IsSafeRedirectTarget location))
        \<and> \<not> IsSafeRedirect None location)"
  by (cases job_factory) (auto simp add: IsSafeRedirect_def)

theorem IsSafeRedirect_by_scheme_witness:
  "IsSafeRedirect None (url_of ''https'' ''example.com'' ''/'' [])
   \<and> \<not> IsSafeRedirect None (url_of ''ftp'' ''example.com'' ''/'' [])
   \<and> IsSafeRedirect (Some (\<lambda>u. scheme u = ''ftp'')) (url_of ''ftp'' ''example.com'' ''/'' [])"
  using IsSafeRedirect_by_scheme [of "url_of ''https'' ''example.com'' ''/'' []" None]
        IsSafeRedirect_by_scheme [of "url_of ''ftp'' ''example.com'' ''/'' []" None]
        IsSafeRedirect_by_scheme [of "url_of ''ftp'' ''example.com'' ''/'' []"
          "Some (\<lambda>u. scheme u = ''ftp'')"]
  by (simp add: url_of_def)

text \<open>
  The claim as stated fails at an invalid target with scheme http and no job factory.
\<close>

theorem IsSafeRedirect_invalid_http_counterexample:
  "scheme ((url_of ''http'' ''exa mple.com'' ''/'' [])\<lparr>is_valid := False\<rparr>) = ''http''
   \<and> \<not> IsSafeRedirect None ((url_of ''http'' ''exa mple.com'' ''/'' [])\<lparr>is_valid := False\<rparr>)"
  by (simp add: url_of_def IsSafeRedirect_def)

section \<open>Properties: read completion\<close>

text \<open>
  C4, as amended: a read completion is turned into success exactly when its result is the
  content-length mismatch error or the incomplete-chunked-encoding error, the request has
  response headers, and the count of bytes after decoding equals the content length they
  declare; every other result is handed on unchanged.
\<close>

theorem OnReadCompleted_downgrade:
  "snd (OnReadCompleted e j rv) =
     (if (rv = ERR_CONTENT_LENGTH_MISMATCH \<or> rv = ERR_INCOMPLETE_CHUNKED_ENCODING)
         \<and> (\<exists>h. request_response_headers e = Some h
                \<and> postfilter_bytes_read e = GetContentLength h)
      then OK else rv)"
  by (cases "request_response_headers e")
     (simp_all add: OnReadCompleted_def ShouldFixMismatchedContentLength_def Let_def)

theorem OnReadCompleted_downgrade_witness:
  "snd (OnReadCompleted read_env_10 URLRequestHttpJob_init ERR_CONTENT_LENGTH_MISMATCH) = OK
   \<and> snd (OnReadCompleted (read_env_10\<lparr>postfilter_bytes_read := 9\<rparr>) URLRequestHttpJob_init
            ERR_CONTENT_LENGTH_MISMATCH) = ERR_CONTENT_LENGTH_MISMATCH
   \<and> snd (OnReadCompleted read_env_10 URLRequestHttpJob_init (- 100)) = - 100"
  using OnReadCompleted_downgrade [of read_env_10 URLRequestHttpJob_init ERR_CONTENT_LENGTH_MISMATCH]
        OnReadCompleted_downgrade [of "read_env_10\<lparr>postfilter_bytes_read := 9\<rparr>"
          URLRequestHttpJob_init ERR_CONTENT_LENGTH_MISMATCH]
        OnReadCompleted_downgrade [of read_env_10 URLRequestHttpJob_init "- 100"]
  by (simp add: read_env_10_def ERR_CONTENT_LENGTH_MISMATCH_def
      ERR_INCOMPLETE_CHUNKED_ENCODING_def OK_def)

text \<open>
  The claim as stated fails at the incomplete-chunked-encoding error, which is downgraded too.
\<close>

theorem OnReadCompleted_chunked_counterexample:
  "ERR_INCOMPLETE_CHUNKED_ENCODING \<noteq> ERR_CONTENT_LENGTH_MISMATCH
   \<and> snd (OnReadCompleted read_env_10 URLRequestHttpJob_init ERR_INCOMPLETE_CHUNKED_ENCODING) = OK"
  by (simp add: OnReadCompleted_def ShouldFixMismatchedContentLength_def Let_def read_env_10_def
      ERR_CONTENT_LENGTH_MISMATCH_def ERR_INCOMPLETE_CHUNKED_ENCODING_def OK_def)

section \<open>Properties: Strict-Transport-Security\<close>

lemma EnumerateHeader_first_split:
  assumes "header_lines h = before @ (name, v) # after"
    and "\<forall>l \<in> set before. fst l \<noteq> name"
  shows "EnumerateHeader_first name h = Some v"
proof -
  have "filter (\<lambda>l. fst l = name) before = []"
    using assms(2) by (simp add: filter_empty_conv)
  then show ?thesis
    by (simp add: EnumerateHeader_first_def EnumerateHeader_def assms(1))
qed

text \<open>
  C6: for a response with a Strict-Transport-Security line, the header is forwarded to the
  security-state store exactly when the TLS info is valid, the certificate status has no error
  bit set, the store exists and the host is not a literal IP address; the value forwarded is
  that of the first Strict-Transport-Security line, whatever lines follow it.
\<close>

theorem hsts_forwarded_iff:
  assumes "response_info j = Some ri"
    and "GetResponseHeaders j = Some h"
    and "header_lines h = before @ (''Strict-Transport-Security'', v) # after"
    and "\<forall>l \<in> set before. fst l \<noteq> ''Strict-Transport-Security''"
  shows "ProcessStrictTransportSecurityHeader security_state j =
           Some (if ssl_is_valid (ssl_info ri)
                    \<and> cert_status (ssl_info ri) AND CERT_STATUS_ALL_ERRORS = 0
                    \<and> security_state
                    \<and> \<not> HostIsIPAddress (request_info_url j)
                 then j\<lparr>events := events j @ [CallAddHSTSHeader (host (request_info_url j)) v]\<rparr>
                 else j)"
proof -
  have first: "EnumerateHeader_first ''Strict-Transport-Security'' h = Some v"
    using assms(3,4) by (rule EnumerateHeader_first_split)
  show ?thesis
    by (simp add: ProcessStrictTransportSecurityHeader_def assms(1,2) first IsCertStatusError_def)
qed

lemma hsts_job_headers:
  "response_info (hsts_job ssl u) = Some (response_with 200 hsts_lines (- 1) ssl)"
  "GetResponseHeaders (hsts_job ssl u) = Some (headers (response_with 200 hsts_lines (- 1) ssl))"
  by (simp_all add: hsts_job_def job_with_response_def URLRequestHttpJob_init_def
      GetResponseHeaders_def)

lemma hsts_lines_split:
  "header_lines (headers (response_with 200 hsts_lines (- 1) ssl)) =
     [(''Content-Type'', ''text/html'')] @ (''Strict-Transport-Security'', ''max-age=31536000'')
       # [(''Strict-Transport-Security'', ''max-age=0'')]"
  "\<forall>l \<in> set [(''Content-Type'', ''text/html'')]. fst l \<noteq> ''Strict-Transport-Security''"
  by (simp_all add: response_with_def hsts_lines_def)

theorem hsts_forwarded_iff_witness:
  "events (the (ProcessStrictTransportSecurityHeader True
                  (hsts_job ssl_ok (url_of ''https'' ''example.com'' ''/'' []))))
     = [CallAddHSTSHeader ''example.com'' ''max-age=31536000'']
   \<and> events (the (ProcessStrictTransportSecurityHeader True
        (hsts_job (ssl_ok\<lparr>cert_status := CERT_STATUS_DATE_INVALID\<rparr>)
           (url_of ''https'' ''example.com'' ''/'' [])))) = []
   \<and> events (the (ProcessStrictTransportSecurityHeader True
        (hsts_job ssl_ok ((url_of ''https'' ''203.0.113.5'' ''/'' [])\<lparr>HostIsIPAddress := True\<rparr>))))
       = []"
proof -
  let ?u = "url_of ''https'' ''example.com'' ''/'' []"
  let ?ip = "(url_of ''https'' ''203.0.113.5'' ''/'' [])\<lparr>HostIsIPAddress := True\<rparr>"
  let ?bad = "ssl_ok\<lparr>cert_status := CERT_STATUS_DATE_INVALID\<rparr>"
  note a = hsts_forwarded_iff [OF hsts_job_headers(1) [of ssl_ok ?u]
             hsts_job_headers(2) [of ssl_ok ?u] hsts_lines_split(1) hsts_lines_split(2), of True]
  note b = hsts_forwarded_iff [OF hsts_job_headers(1) [of ?bad ?u]
             hsts_job_headers(2) [of ?bad ?u] hsts_lines_split(1) hsts_lines_split(2), of True]
  note c = hsts_forwarded_iff [OF hsts_job_headers(1) [of ssl_ok ?ip]
             hsts_job_headers(2) [of ssl_ok ?ip] hsts_lines_split(1) hsts_lines_split(2), of True]
  show ?thesis
    using a b c
    by (simp add: hsts_job_def job_with_response_def URLRequestHttpJob_init_def
        response_with_def ssl_ok_def url_of_def CERT_STATUS_DATE_INVALID_def
        CERT_STATUS_ALL_ERRORS_def)
qed

section \<open>Properties: content decoding\<close>

lemma collect_types_eq:
  "collect_types e toks acc =
     (if \<exists>t \<in> set (map (ParseEncodingType e) toks). passes_through e t then None
      else Some (acc @ map (ParseEncodingType e) toks))"
proof (induction toks arbitrary: acc)
  case Nil
  show ?case by simp
next
  case (Cons tok toks)
  show ?case
    by (cases "ParseEncodingType e tok"; cases "accepted_stream_types e")
       (simp_all add: Cons.IH passes_through_def)
qed

lemma wrap_stages_append:
  "wrap_stages e (xs @ ys) up =
     (case wrap_stages e xs up of None \<Rightarrow> None | Some s \<Rightarrow> wrap_stages e ys s)"
proof (induction xs arbitrary: up)
  case Nil
  show ?case by simp
next
  case (Cons x xs)
  show ?case by (cases x) (simp_all add: Cons.IH)
qed

lemma wrap_stages_single:
  "\<not> passes_through e t \<Longrightarrow>
   wrap_stages e [t] up = (if stage_constructible e t up then Some (FilterSourceStream t up) else None)"
  by (cases t) (simp_all add: passes_through_def)

lemma wrap_stages_rev_ok:
  assumes "\<forall>t \<in> set types. \<not> passes_through e t"
    and "\<forall>a t b. types = a @ t # b \<longrightarrow>
           stage_constructible e t (foldr FilterSourceStream b RawSourceStream)"
  shows "wrap_stages e (rev types) RawSourceStream =
           Some (foldr FilterSourceStream types RawSourceStream)"
  using assms
proof (induction types)
  case Nil
  show ?case by simp
next
  case (Cons t types)
  have tail: "\<forall>a t' b. types = a @ t' # b \<longrightarrow>
           stage_constructible e t' (foldr FilterSourceStream b RawSourceStream)"
  proof (intro allI impI)
    fix a t' b assume "types = a @ t' # b"
    then have "t # types = (t # a) @ t' # b" by simp
    then show "stage_constructible e t' (foldr FilterSourceStream b RawSourceStream)"
      using Cons.prems(2) [rule_format, of "t # a" t' b] by simp
  qed
  have rest: "\<forall>t \<in> set types. \<not> passes_through e t"
    using Cons.prems(1) by simp
  have ih: "wrap_stages e (rev types) RawSourceStream =
           Some (foldr FilterSourceStream types RawSourceStream)"
    by (rule Cons.IH [OF rest tail])
  have c: "stage_constructible e t (foldr FilterSourceStream types RawSourceStream)"
    using Cons.prems(2) [rule_format, of "[]" t types] by simp
  have nt: "\<not> passes_through e t" using Cons.prems(1) by simp
  show ?case
    by (simp add: wrap_stages_append ih wrap_stages_single [OF nt] c del: wrap_stages.simps(2))
qed

lemma wrap_stages_rev_some:
  assumes "\<forall>t \<in> set b. \<not> passes_through e t"
    and "wrap_stages e (rev b) RawSourceStream = Some s"
  shows "s = foldr FilterSourceStream b RawSourceStream"
  using assms
proof (induction b arbitrary: s)
  case Nil
  then show ?case by simp
next
  case (Cons x b)
  have nx: "\<not> passes_through e x" using Cons.prems(1) by simp
  have rest: "\<forall>t \<in> set b. \<not> passes_through e t" using Cons.prems(1) by simp
  have step: "(case wrap_stages e (rev b) RawSourceStream of
                 None \<Rightarrow> None | Some s' \<Rightarrow> wrap_stages e [x] s') = Some s"
    using Cons.prems(2) by (simp add: wrap_stages_append del: wrap_stages.simps(2))
  then obtain s' where s': "wrap_stages e (rev b) RawSourceStream = Some s'"
    by (cases "wrap_stages e (rev b) RawSourceStream") simp_all
  have eq: "s' = foldr FilterSourceStream b RawSourceStream"
    by (rule Cons.IH [OF rest s'])
  have "wrap_stages e [x] s' = Some s"
    using step s' by simp
  then have "s = FilterSourceStream x s'"
    by (simp add: wrap_stages_single [OF nx] del: wrap_stages.simps(2) split: if_splits)
  then show ?case by (simp add: eq)
qed

lemma wrap_stages_rev_fail:
  assumes "\<forall>t \<in> set types. \<not> passes_through e t"
    and "types = a @ t # b"
    and "\<not> stage_constructible e t (foldr FilterSourceStream b RawSourceStream)"
  shows "wrap_stages e (rev types) RawSourceStream = None"
proof -
  have nt: "\<not> passes_through e t" using assms(1,2) by simp
  have nb: "\<forall>t \<in> set b. \<not> passes_through e t" using assms(1,2) by simp
  have inner: "wrap_stages e (rev b @ [t]) RawSourceStream = None"
  proof (cases "wrap_stages e (rev b) RawSourceStream")
    case None
    then show ?thesis by (simp add: wrap_stages_append del: wrap_stages.simps(2))
  next
    case (Some s)
    have "s = foldr FilterSourceStream b RawSourceStream"
      by (rule wrap_stages_rev_some [OF nb Some])
    then show ?thesis
      using assms(3) Some
      by (simp add: wrap_stages_append wrap_stages_single [OF nt] del: wrap_stages.simps(2))
  qed
  have "rev types = (rev b @ [t]) @ rev a"
    by (simp add: assms(2))
  then show ?thesis
    using inner wrap_stages_append [of e "rev b @ [t]" "rev a" RawSourceStream] by simp
qed

lemma decode_order_foldr:
  "decode_order (foldr FilterSourceStream types RawSourceStream) = rev types"
  by (induction types) simp_all

lemma SetUpSourceStream_unfold:
  assumes "response_info j \<noteq> None"
    and "GetResponseHeaders j = Some h"
  shows "SetUpSourceStream e j =
           (case collect_types e (EnumerateHeader ''Content-Encoding'' h) [] of
              None \<Rightarrow> Some RawSourceStream
            | Some types \<Rightarrow> wrap_stages e (rev types) RawSourceStream)"
  using assms by (auto simp add: SetUpSourceStream_def)

text \<open>
  C3: \<open>SetUpSourceStream\<close> returns the raw stream when any Content-Encoding token is
  identity, unknown or excluded by the accepted stream types; otherwise it wraps one stage per
  token in reverse header order, so that the stage of the last token decodes first, and it
  returns null as soon as the construction of one stage fails.
\<close>

theorem SetUpSourceStream_pipeline:
  assumes "response_info j \<noteq> None"
    and "GetResponseHeaders j = Some h"
    and "types = map (ParseEncodingType e) (EnumerateHeader ''Content-Encoding'' h)"
  shows "((\<exists>t \<in> set types. passes_through e t) \<longrightarrow>
            SetUpSourceStream e j = Some RawSourceStream)
       \<and> ((\<forall>t \<in> set types. \<not> passes_through e t)
            \<and> (\<forall>a t b. types = a @ t # b \<longrightarrow>
                  stage_constructible e t (foldr FilterSourceStream b RawSourceStream)) \<longrightarrow>
            SetUpSourceStream e j = Some (foldr FilterSourceStream types RawSourceStream)
            \<and> decode_order (foldr FilterSourceStream types RawSourceStream) = rev types)
       \<and> ((\<forall>t \<in> set types. \<not> passes_through e t)
            \<and> (\<exists>a t b. types = a @ t # b
                  \<and> \<not> stage_constructible e t (foldr FilterSourceStream b RawSourceStream)) \<longrightarrow>
            SetUpSourceStream e j = None)"
proof -
  note unfold = SetUpSourceStream_unfold [OF assms(1,2), of e]
  have raw: "(\<exists>t \<in> set types. passes_through e t) \<longrightarrow>
            SetUpSourceStream e j = Some RawSourceStream"
    by (simp add: unfold collect_types_eq assms(3))
  have clean: "\<forall>t \<in> set types. \<not> passes_through e t \<Longrightarrow>
            SetUpSourceStream e j = wrap_stages e (rev types) RawSourceStream"
    by (simp add: unfold collect_types_eq assms(3))
  have ok: "(\<forall>t \<in> set types. \<not> passes_through e t)
            \<and> (\<forall>a t b. types = a @ t # b \<longrightarrow>
                  stage_constructible e t (foldr FilterSourceStream b RawSourceStream)) \<longrightarrow>
            SetUpSourceStream e j = Some (foldr FilterSourceStream types RawSourceStream)
            \<and> decode_order (foldr FilterSourceStream types RawSourceStream) = rev types"
  proof
    assume h: "(\<forall>t \<in> set types. \<not> passes_through e t)
            \<and> (\<forall>a t b. types = a @ t # b \<longrightarrow>
                  stage_constructible e t (foldr FilterSourceStream b RawSourceStream))"
    have "wrap_stages e (rev types) RawSourceStream =
            Some (foldr FilterSourceStream types RawSourceStream)"
      by (rule wrap_stages_rev_ok [OF conjunct1 [OF h] conjunct2 [OF h]])
    then show "SetUpSourceStream e j = Some (foldr FilterSourceStream types RawSourceStream)
            \<and> decode_order (foldr FilterSourceStream types RawSourceStream) = rev types"
      using clean [OF conjunct1 [OF h]] by (simp add: decode_order_foldr)
  qed
  have fail: "(\<forall>t \<in> set types. \<not> passes_through e t)
            \<and> (\<exists>a t b. types = a @ t # b
                  \<and> \<not> stage_constructible e t (foldr FilterSourceStream b RawSourceStream)) \<longrightarrow>
            SetUpSourceStream e j = None"
  proof
    assume h: "(\<forall>t \<in> set types. \<not> passes_through e t)
            \<and> (\<exists>a t b. types = a @ t # b
                  \<and> \<not> stage_constructible e t (foldr FilterSourceStream b RawSourceStream))"
    then obtain a t b where s: "types = a @ t # b"
      and n: "\<not> stage_constructible e t (foldr FilterSourceStream b RawSourceStream)"
      by blast
    have "wrap_stages e (rev types) RawSourceStream = None"
      by (rule wrap_stages_rev_fail [OF conjunct1 [OF h] s n])
    then show "SetUpSourceStream e j = None"
      using clean [OF conjunct1 [OF h]] by simp
  qed
  from raw ok fail show ?thesis by (intro conjI)
qed

lemma encoded_job_headers:
  "response_info (encoded_job toks) \<noteq> None"
  "GetResponseHeaders (encoded_job toks)
     = Some (headers (response_with 200 (encoding_lines toks) (- 1) no_ssl))"
  by (simp_all add: encoded_job_def job_with_response_def URLRequestHttpJob_init_def
      GetResponseHeaders_def)

lemma encoded_job_types:
  "map (ParseEncodingType e)
     (EnumerateHeader ''Content-Encoding''
        (headers (response_with 200 (encoding_lines toks) (- 1) no_ssl)))
     = map (ParseEncodingType e) toks"
  by (simp add: EnumerateHeader_def response_with_def encoding_lines_def filter_map o_def)

theorem SetUpSourceStream_pipeline_witness:
  "SetUpSourceStream stream_env_example (encoded_job [''gzip'', ''br''])
     = Some (FilterSourceStream TYPE_GZIP (FilterSourceStream TYPE_BROTLI RawSourceStream))
   \<and> decode_order (FilterSourceStream TYPE_GZIP (FilterSourceStream TYPE_BROTLI RawSourceStream))
       = [TYPE_BROTLI, TYPE_GZIP]
   \<and> SetUpSourceStream stream_env_example (encoded_job [''unknown'', ''gzip''])
       = Some RawSourceStream
   \<and> SetUpSourceStream (stream_env_example\<lparr>stage_constructible := (\<lambda>t s. t \<noteq> TYPE_BROTLI)\<rparr>)
        (encoded_job [''gzip'', ''br'']) = None"
proof -
  let ?fail = "stream_env_example\<lparr>stage_constructible := (\<lambda>t s. t \<noteq> TYPE_BROTLI)\<rparr>"
  have t1: "map (ParseEncodingType stream_env_example) [''gzip'', ''br''] = [TYPE_GZIP, TYPE_BROTLI]"
    by (simp add: stream_env_example_def parse_example_def)
  have t2: "map (ParseEncodingType stream_env_example) [''unknown'', ''gzip'']
              = [TYPE_UNKNOWN, TYPE_GZIP]"
    by (simp add: stream_env_example_def parse_example_def)
  have t3: "map (ParseEncodingType ?fail) [''gzip'', ''br''] = [TYPE_GZIP, TYPE_BROTLI]"
    by (simp add: stream_env_example_def parse_example_def)
  note a = SetUpSourceStream_pipeline [OF encoded_job_headers(1) encoded_job_headers(2)
             trans [OF t1 [symmetric] encoded_job_types [symmetric]]]
  note b = SetUpSourceStream_pipeline [OF encoded_job_headers(1) encoded_job_headers(2)
             trans [OF t2 [symmetric] encoded_job_types [symmetric]]]
  note c = SetUpSourceStream_pipeline [OF encoded_job_headers(1) encoded_job_headers(2)
             trans [OF t3 [symmetric] encoded_job_types [symmetric]]]
  have p: "\<forall>t \<in> set [TYPE_GZIP, TYPE_BROTLI]. \<not> passes_through stream_env_example t"
    "\<forall>t \<in> set [TYPE_GZIP, TYPE_BROTLI]. \<not> passes_through ?fail t"
    "\<exists>t \<in> set [TYPE_UNKNOWN, TYPE_GZIP]. passes_through stream_env_example t"
    by (simp_all add: passes_through_def stream_env_example_def)
  have all: "\<forall>a t b. [TYPE_GZIP, TYPE_BROTLI] = a @ t # b \<longrightarrow>
           stage_constructible stream_env_example t (foldr FilterSourceStream b RawSourceStream)"
    by (simp add: stream_env_example_def)
  have ex: "\<exists>a t b. [TYPE_GZIP, TYPE_BROTLI] = a @ t # b
           \<and> \<not> stage_constructible ?fail t (foldr FilterSourceStream b RawSourceStream)"
    by (rule exI [of _ "[TYPE_GZIP]"], rule exI [of _ TYPE_BROTLI], rule exI [of _ "[]"])
       (simp add: stream_env_example_def)
  show ?thesis
    using a b c p all ex by simp
qed

section \<open>Properties: saving cookies and signalling headers complete\<close>

lemma headers_complete_calls_updates:
  "headers_complete_calls (j\<lparr>set_cookie_access_result_list := l\<rparr>) = headers_complete_calls j"
  "headers_complete_calls (j\<lparr>num_cookie_lines_left := n\<rparr>) = headers_complete_calls j"
  "headers_complete_calls (j\<lparr>maybe_stored_cookies := l\<rparr>) = headers_complete_calls j"
  "headers_complete_calls (j\<lparr>response_info := i\<rparr>) = headers_complete_calls j"
  "headers_complete_calls (j\<lparr>events := events j @ evs\<rparr>)
     = headers_complete_calls j @ filter is_headers_complete evs"
  by (simp_all add: headers_complete_calls_def)

lemma GetResponseHeaders_of_transaction:
  assumes "transaction j = Some t" and "GetResponseInfo t = Some ri"
  shows "\<exists>h. GetResponseHeaders j = Some h"
  using assms by (cases "override_response_headers j") (simp_all add: GetResponseHeaders_def)

lemma GetResponseHeaders_updates:
  "GetResponseHeaders (j\<lparr>events := evs\<rparr>) = GetResponseHeaders j"
  "GetResponseHeaders (j\<lparr>response_info := i\<rparr>) = GetResponseHeaders j"
  "GetResponseHeaders (j\<lparr>set_cookie_access_result_list := l\<rparr>) = GetResponseHeaders j"
  "GetResponseHeaders (j\<lparr>num_cookie_lines_left := n\<rparr>) = GetResponseHeaders j"
  by (simp_all add: GetResponseHeaders_def cong: option.case_cong)

lemma security_header_steps:
  assumes "response_info j = Some ri" and "GetResponseHeaders j = Some h"
  shows "\<exists>evs. ProcessStrictTransportSecurityHeader security_state j
                 = Some (j\<lparr>events := events j @ evs\<rparr>)
               \<and> filter is_headers_complete evs = []"
    and "\<exists>evs. ProcessExpectCTHeader security_state j
                 = Some (j\<lparr>events := events j @ evs\<rparr>)
               \<and> filter is_headers_complete evs = []"
proof -
  show "\<exists>evs. ProcessStrictTransportSecurityHeader security_state j
                 = Some (j\<lparr>events := events j @ evs\<rparr>)
               \<and> filter is_headers_complete evs = []"
  proof (cases "EnumerateHeader_first ''Strict-Transport-Security'' h")
    case None
    have "ProcessStrictTransportSecurityHeader security_state j
            = Some (j\<lparr>events := events j @ []\<rparr>)"
      using assms None by (simp add: ProcessStrictTransportSecurityHeader_def)
    then show ?thesis by (intro exI [of _ "[]"]) simp
  next
    case (Some v)
    show ?thesis
    proof (cases "\<not> ssl_is_valid (ssl_info ri) \<or> IsCertStatusError (cert_status (ssl_info ri))
                  \<or> \<not> security_state \<or> HostIsIPAddress (request_info_url j)")
      case True
      then have "ProcessStrictTransportSecurityHeader security_state j
            = Some (j\<lparr>events := events j @ []\<rparr>)"
        using assms by (auto simp add: ProcessStrictTransportSecurityHeader_def)
      then show ?thesis by (intro exI [of _ "[]"]) simp
    next
      case False
      then have "ProcessStrictTransportSecurityHeader security_state j
            = Some (j\<lparr>events := events j @ [CallAddHSTSHeader (host (request_info_url j)) v]\<rparr>)"
        using assms Some by (simp add: ProcessStrictTransportSecurityHeader_def)
      then show ?thesis
        by (intro exI [of _ "[CallAddHSTSHeader (host (request_info_url j)) v]"]) simp
    qed
  qed
  show "\<exists>evs. ProcessExpectCTHeader security_state j
                 = Some (j\<lparr>events := events j @ evs\<rparr>)
               \<and> filter is_headers_complete evs = []"
  proof (cases "GetNormalizedHeader ''Expect-CT'' h")
    case None
    have "ProcessExpectCTHeader security_state j = Some (j\<lparr>events := events j @ []\<rparr>)"
      using assms None by (simp add: ProcessExpectCTHeader_def)
    then show ?thesis by (intro exI [of _ "[]"]) simp
  next
    case (Some v)
    show ?thesis
    proof (cases "\<not> ssl_is_valid (ssl_info ri) \<or> IsCertStatusError (cert_status (ssl_info ri))
                  \<or> \<not> security_state")
      case True
      then have "ProcessExpectCTHeader security_state j = Some (j\<lparr>events := events j @ []\<rparr>)"
        using assms by (auto simp add: ProcessExpectCTHeader_def)
      then show ?thesis by (intro exI [of _ "[]"]) simp
    next
      case False
      then have "ProcessExpectCTHeader security_state j
            = Some (j\<lparr>events := events j
                      @ [CallProcessExpectCTHeader v (host (request_info_url j))]\<rparr>)"
        using assms Some by (simp add: ProcessExpectCTHeader_def)
      then show ?thesis
        by (intro exI [of _ "[CallProcessExpectCTHeader v (host (request_info_url j))]"]) simp
    qed
  qed
qed

lemma RestartTransactionWithAuth_cookie_fields:
  "headers_complete_calls (RestartTransactionWithAuth r credentials j) = headers_complete_calls j"
  "num_cookie_lines_left (RestartTransactionWithAuth r credentials j) = num_cookie_lines_left j"
  "maybe_stored_cookies (RestartTransactionWithAuth r credentials j) = []"
  by (simp_all add: RestartTransactionWithAuth_def AddCookieHeaderAndStart_def Let_def
      headers_complete_calls_def)

lemma NotifyHeadersComplete_effect:
  assumes t: "transaction j = Some t" and ri: "GetResponseInfo t = Some ri"
  shows "\<exists>j'. NotifyHeadersComplete r security_state j = Some j'
           \<and> headers_complete_calls j'
               = headers_complete_calls j
                 @ [CallNotifyHeadersComplete (num_cookie_lines_left j)
                      (set_cookie_access_result_list j)]
           \<and> num_cookie_lines_left j' = num_cookie_lines_left j
           \<and> maybe_stored_cookies j'
               = (if IsReadyToRestartForAuth t then [] else set_cookie_access_result_list j)"
proof -
  define j2 where "j2 = j\<lparr>events := events j
                       @ [CallNotifyHeadersComplete (num_cookie_lines_left j)
                            (set_cookie_access_result_list j)],
                     response_info := GetResponseInfo t\<rparr>"
  define throttled where "throttled =
     (if \<not> was_cached ri \<and> throttling_entry j2
      then (case GetResponseCode j2 of
              None \<Rightarrow> None
            | Some code \<Rightarrow> Some (j2\<lparr>events := events j2 @ [CallUpdateWithResponse code]\<rparr>))
      else Some j2)"
  have unfold: "NotifyHeadersComplete r security_state j =
     (case throttled of
        None \<Rightarrow> None
      | Some j3 \<Rightarrow>
          (case ProcessStrictTransportSecurityHeader security_state j3 of
             None \<Rightarrow> None
           | Some j4 \<Rightarrow>
               (case ProcessExpectCTHeader security_state j4 of
                  None \<Rightarrow> None
                | Some j5 \<Rightarrow>
                    (let j6 = j5\<lparr>maybe_stored_cookies := set_cookie_access_result_list j5,
                                  set_cookie_access_result_list := []\<rparr>
                     in Some (if IsReadyToRestartForAuth t
                              then RestartTransactionWithAuth r ([], []) j6
                              else j6\<lparr>events := events j6
                                     @ [CallURLRequestJobNotifyHeadersComplete]\<rparr>)))))"
    unfolding NotifyHeadersComplete_def throttled_def j2_def
    by (simp add: t ri Let_def cong: option.case_cong if_cong)
  obtain h where h: "GetResponseHeaders j = Some h"
    using GetResponseHeaders_of_transaction [OF t ri] by blast
  have ri2: "response_info j2 = Some ri"
    by (simp add: j2_def ri)
  have h2: "GetResponseHeaders j2 = Some h"
    by (simp add: j2_def GetResponseHeaders_updates h)
  have code: "GetResponseCode j2 = Some (response_code h)"
    by (simp add: GetResponseCode_def ri2 h2)
  obtain evs0 where thr: "throttled = Some (j2\<lparr>events := events j2 @ evs0\<rparr>)"
    and n0: "filter is_headers_complete evs0 = []"
  proof (cases "\<not> was_cached ri \<and> throttling_entry j2")
    case True
    then have "throttled
                 = Some (j2\<lparr>events := events j2 @ [CallUpdateWithResponse (response_code h)]\<rparr>)"
      by (simp add: throttled_def code)
    then show ?thesis using that [of "[CallUpdateWithResponse (response_code h)]"] by simp
  next
    case False
    then have "throttled = Some (j2\<lparr>events := events j2 @ []\<rparr>)"
      by (auto simp add: throttled_def)
    then show ?thesis using that [of "[]"] by simp
  qed
  define j3 where "j3 = j2\<lparr>events := events j2 @ evs0\<rparr>"
  have ri3: "response_info j3 = Some ri" by (simp add: j3_def ri2)
  have h3: "GetResponseHeaders j3 = Some h" by (simp add: j3_def GetResponseHeaders_updates h2)
  obtain evs1 where sts: "ProcessStrictTransportSecurityHeader security_state j3
                            = Some (j3\<lparr>events := events j3 @ evs1\<rparr>)"
    and n1: "filter is_headers_complete evs1 = []"
    using security_header_steps(1) [OF ri3 h3] by blast
  define j4 where "j4 = j3\<lparr>events := events j3 @ evs1\<rparr>"
  have ri4: "response_info j4 = Some ri" by (simp add: j4_def ri3)
  have h4: "GetResponseHeaders j4 = Some h" by (simp add: j4_def GetResponseHeaders_updates h3)
  obtain evs2 where ct: "ProcessExpectCTHeader security_state j4
                           = Some (j4\<lparr>events := events j4 @ evs2\<rparr>)"
    and n2: "filter is_headers_complete evs2 = []"
    using security_header_steps(2) [OF ri4 h4] by blast
  define j5 where "j5 = j4\<lparr>events := events j4 @ evs2\<rparr>"
  define j6 where "j6 = j5\<lparr>maybe_stored_cookies := set_cookie_access_result_list j5,
                            set_cookie_access_result_list := []\<rparr>"
  have c5: "headers_complete_calls j5
              = headers_complete_calls j
                @ [CallNotifyHeadersComplete (num_cookie_lines_left j)
                     (set_cookie_access_result_list j)]"
    by (simp add: j5_def j4_def j3_def j2_def headers_complete_calls_def n0 n1 n2)
  have f5: "num_cookie_lines_left j5 = num_cookie_lines_left j"
    "set_cookie_access_result_list j5 = set_cookie_access_result_list j"
    by (simp_all add: j5_def j4_def j3_def j2_def)
  have c6: "headers_complete_calls j6 = headers_complete_calls j5"
    "num_cookie_lines_left j6 = num_cookie_lines_left j5"
    "maybe_stored_cookies j6 = set_cookie_access_result_list j5"
    by (simp_all add: j6_def headers_complete_calls_def)
  have res: "NotifyHeadersComplete r security_state j =
               Some (if IsReadyToRestartForAuth t
                     then RestartTransactionWithAuth r ([], []) j6
                     else j6\<lparr>events := events j6 @ [CallURLRequestJobNotifyHeadersComplete]\<rparr>)"
    by (simp add: unfold thr j3_def [symmetric] sts j4_def [symmetric] ct j5_def [symmetric]
        j6_def [symmetric] Let_def)
  show ?thesis
    by (cases "IsReadyToRestartForAuth t")
       (simp_all add: res RestartTransactionWithAuth_cookie_fields c6 c5 f5
          headers_complete_calls_updates)
qed

lemma OnSetCookieResult_pending:
  assumes "num_cookie_lines_left j \<noteq> 1"
  shows "OnSetCookieResult r security_state options c s a j =
           Some (j\<lparr>set_cookie_access_result_list :=
                     set_cookie_access_result_list j @ [stored_entry options (c, s, a)],
                   num_cookie_lines_left := num_cookie_lines_left j - 1\<rparr>)"
  using assms by (simp add: OnSetCookieResult_def Let_def stored_entry_def)

lemma OnSetCookieResult_last:
  assumes "num_cookie_lines_left j = 1"
  shows "OnSetCookieResult r security_state options c s a j =
           NotifyHeadersComplete r security_state
             (j\<lparr>set_cookie_access_result_list :=
                  set_cookie_access_result_list j @ [stored_entry options (c, s, a)],
                num_cookie_lines_left := 0\<rparr>)"
  using assms by (simp add: OnSetCookieResult_def Let_def stored_entry_def)

lemma OnSetCookieResult_inside_loop:
  assumes "1 \<le> num_cookie_lines_left j"
  shows "OnSetCookieResult r security_state options c s a
           (j\<lparr>num_cookie_lines_left := num_cookie_lines_left j + 1\<rparr>) =
         Some (j\<lparr>set_cookie_access_result_list :=
                   set_cookie_access_result_list j @ [stored_entry options (c, s, a)]\<rparr>)"
proof -
  have "num_cookie_lines_left (j\<lparr>num_cookie_lines_left := num_cookie_lines_left j + 1\<rparr>) \<noteq> 1"
    using assms by simp
  then show ?thesis
    by (simp add: OnSetCookieResult_pending)
qed

lemma cookie_loop_step:
  assumes "1 \<le> num_cookie_lines_left j"
    and "fst (CanonicalCookie_Create e l) = None
           \<longrightarrow> \<not> IsInclude (snd (CanonicalCookie_Create e l))"
  shows "(\<exists>x. cookie_loop r security_state e options i (l # ls) (j, pending) =
              cookie_loop r security_state e options (Suc i) ls
                (j\<lparr>set_cookie_access_result_list := set_cookie_access_result_list j @ [x]\<rparr>,
                 pending))
       \<or> (\<exists>cb. cookie_loop r security_state e options i (l # ls) (j, pending) =
              cookie_loop r security_state e options (Suc i) ls
                (j\<lparr>num_cookie_lines_left := num_cookie_lines_left j + 1\<rparr>, pending @ [cb]))"
proof (cases "CanonicalCookie_Create e l")
  case (Pair cookie st)
  note inside = OnSetCookieResult_inside_loop [OF assms(1)]
  let ?lhs = "cookie_loop r security_state e options i (l # ls) (j, pending)"
  let ?sync = "\<lambda>x. cookie_loop r security_state e options (Suc i) ls
                (j\<lparr>set_cookie_access_result_list := set_cookie_access_result_list j @ [x]\<rparr>,
                 pending)"
  let ?later = "\<lambda>cb. cookie_loop r security_state e options (Suc i) ls
                (j\<lparr>num_cookie_lines_left := num_cookie_lines_left j + 1\<rparr>, pending @ [cb])"
  show ?thesis
  proof (cases cookie)
    case None
    then have "\<not> IsInclude st" using assms(2) Pair by simp
    then have "?lhs = ?sync (stored_entry options (None, l, st))"
      using None Pair by (simp add: inside)
    then show ?thesis by blast
  next
    case (Some c)
    let ?st1 = "if \<not> CanSetCookie e c
                then AddExclusionReason EXCLUDE_USER_PREFERENCES st else st"
    let ?ret = "if IsInclude st then Some c else None"
    show ?thesis
    proof (cases "IsInclude ?st1")
      case False
      then have "?lhs = ?sync (stored_entry options (?ret, l, ?st1))"
        using Some Pair by (simp add: inside Let_def)
      then show ?thesis by blast
    next
      case True
      show ?thesis
      proof (cases "SetCanonicalCookieAsync e i c")
        case (RunsCallbackInside a)
        then have "?lhs = ?sync (stored_entry options (?ret, l, a))"
          using True Some Pair by (simp add: inside Let_def)
        then show ?thesis by blast
      next
        case (RunsCallbackLater a)
        then have "?lhs = ?later (?ret, l, a)"
          using True Some Pair by (simp add: Let_def)
        then show ?thesis by blast
      qed
    qed
  qed
qed

lemma cookie_loop_invariant:
  assumes "create_consistent e ls"
    and "num_cookie_lines_left j = 1 + int (length pending)"
  shows "\<exists>j' pending'. cookie_loop r security_state e options i ls (j, pending)
                          = Some (j', pending')
           \<and> num_cookie_lines_left j' = 1 + int (length pending')
           \<and> headers_complete_calls j' = headers_complete_calls j
           \<and> transaction j' = transaction j
           \<and> length (set_cookie_access_result_list j') + length pending'
               = length (set_cookie_access_result_list j) + length pending + length ls"
  using assms
proof (induction ls arbitrary: i j pending)
  case Nil
  then show ?case by simp
next
  case (Cons l ls)
  have cl: "fst (CanonicalCookie_Create e l) = None
           \<longrightarrow> \<not> IsInclude (snd (CanonicalCookie_Create e l))"
    and cls: "create_consistent e ls"
    using Cons.prems(1) by (simp_all add: create_consistent_def)
  have pos: "1 \<le> num_cookie_lines_left j" using Cons.prems(2) by simp
  from cookie_loop_step [OF pos cl, of r security_state options i ls pending]
  show ?case
  proof (elim disjE exE)
    fix x
    assume eq: "cookie_loop r security_state e options i (l # ls) (j, pending) =
              cookie_loop r security_state e options (Suc i) ls
                (j\<lparr>set_cookie_access_result_list := set_cookie_access_result_list j @ [x]\<rparr>,
                 pending)"
    let ?j = "j\<lparr>set_cookie_access_result_list := set_cookie_access_result_list j @ [x]\<rparr>"
    have a: "num_cookie_lines_left ?j = 1 + int (length pending)"
      using Cons.prems(2) by simp
    from Cons.IH [OF cls a, of "Suc i"] show ?thesis
      unfolding eq by (simp add: headers_complete_calls_updates)
  next
    fix cb
    assume eq: "cookie_loop r security_state e options i (l # ls) (j, pending) =
              cookie_loop r security_state e options (Suc i) ls
                (j\<lparr>num_cookie_lines_left := num_cookie_lines_left j + 1\<rparr>, pending @ [cb])"
    let ?j = "j\<lparr>num_cookie_lines_left := num_cookie_lines_left j + 1\<rparr>"
    have a: "num_cookie_lines_left ?j = 1 + int (length (pending @ [cb]))"
      using Cons.prems(2) by simp
    from Cons.IH [OF cls a, of "Suc i"] show ?thesis
      unfolding eq by (simp add: headers_complete_calls_updates)
  qed
qed

lemma run_callbacks_append:
  "run_callbacks r security_state options (xs @ ys) j =
     (case run_callbacks r security_state options xs j of
        None \<Rightarrow> None
      | Some j1 \<Rightarrow> run_callbacks r security_state options ys j1)"
  by (induction xs arbitrary: j) (auto split: option.splits)

lemma run_callbacks_waiting:
  assumes "num_cookie_lines_left j = int (length cbs) + k"
    and "0 < k"
  shows "\<exists>jm. run_callbacks r security_state options cbs j = Some jm
       \<and> headers_complete_calls jm = headers_complete_calls j
       \<and> transaction jm = transaction j
       \<and> num_cookie_lines_left jm = k
       \<and> set_cookie_access_result_list jm
           = set_cookie_access_result_list j @ map (stored_entry options) cbs"
  using assms
proof (induction cbs arbitrary: j)
  case Nil
  then show ?case by simp
next
  case (Cons cb cbs)
  obtain c s a where cb: "cb = (c, s, a)" by (cases cb)
  have ne: "num_cookie_lines_left j \<noteq> 1" using Cons.prems(1,2) by simp
  define j1 where "j1 = j\<lparr>set_cookie_access_result_list :=
                     set_cookie_access_result_list j @ [stored_entry options (c, s, a)],
                   num_cookie_lines_left := num_cookie_lines_left j - 1\<rparr>"
  have step: "OnSetCookieResult r security_state options c s a j = Some j1"
    by (simp add: OnSetCookieResult_pending [OF ne] j1_def)
  have a: "num_cookie_lines_left j1 = int (length cbs) + k"
    using Cons.prems(1) by (simp add: j1_def)
  have f: "headers_complete_calls j1 = headers_complete_calls j"
    "transaction j1 = transaction j"
    "set_cookie_access_result_list j1
       = set_cookie_access_result_list j @ [stored_entry options cb]"
    by (simp_all add: j1_def headers_complete_calls_def cb)
  from Cons.IH [OF a Cons.prems(2)] show ?case
    by (simp add: cb step f [unfolded cb])
qed

lemma run_callbacks_all:
  assumes "num_cookie_lines_left j = int (length cbs)"
    and "cbs \<noteq> []"
    and "transaction j = Some t"
    and "GetResponseInfo t = Some ri"
  shows "\<exists>jf. run_callbacks r security_state options cbs j = Some jf
       \<and> headers_complete_calls jf
           = headers_complete_calls j
             @ [CallNotifyHeadersComplete 0
                  (set_cookie_access_result_list j @ map (stored_entry options) cbs)]
       \<and> maybe_stored_cookies jf
           = (if IsReadyToRestartForAuth t then []
              else set_cookie_access_result_list j @ map (stored_entry options) cbs)
       \<and> num_cookie_lines_left jf = 0"
proof -
  obtain xs x where split: "cbs = xs @ [x]"
    using assms(2) by (cases cbs rule: rev_cases) auto
  obtain c s a where x: "x = (c, s, a)" by (cases x)
  have n: "num_cookie_lines_left j = int (length xs) + 1"
    using assms(1) by (simp add: split)
  from run_callbacks_waiting [OF n, of r security_state options]
  obtain jm where jm: "run_callbacks r security_state options xs j = Some jm"
    and cm: "headers_complete_calls jm = headers_complete_calls j"
    and tm: "transaction jm = transaction j"
    and one: "num_cookie_lines_left jm = 1"
    and lm: "set_cookie_access_result_list jm
               = set_cookie_access_result_list j @ map (stored_entry options) xs"
    by auto
  define jl where "jl = jm\<lparr>set_cookie_access_result_list :=
                  set_cookie_access_result_list jm @ [stored_entry options (c, s, a)],
                num_cookie_lines_left := 0\<rparr>"
  have tl: "transaction jl = Some t"
    by (simp add: jl_def tm assms(3))
  have fl: "headers_complete_calls jl = headers_complete_calls j"
    "num_cookie_lines_left jl = 0"
    "set_cookie_access_result_list jl
       = set_cookie_access_result_list j @ map (stored_entry options) cbs"
    by (simp_all add: jl_def headers_complete_calls_def cm [unfolded headers_complete_calls_def]
        lm split x)
  have r: "run_callbacks r security_state options cbs j
             = NotifyHeadersComplete r security_state jl"
    by (simp add: split x run_callbacks_append jm OnSetCookieResult_last [OF one] jl_def
        split: option.splits)
  from NotifyHeadersComplete_effect [OF tl assms(4), of r security_state]
  show ?thesis
    by (auto simp add: r fl)
qed

lemma completions_in_any_order:
  assumes "(if pending = []
               then headers_complete_calls j1 = c0 @ [CallNotifyHeadersComplete 0 inside]
                    \<and> maybe_stored_cookies j1
                        = (if IsReadyToRestartForAuth t then [] else inside)
                    \<and> num_cookie_lines_left j1 = 0
               else headers_complete_calls j1 = c0
                    \<and> set_cookie_access_result_list j1 = inside
                    \<and> num_cookie_lines_left j1 = int (length pending)
                    \<and> transaction j1 = Some t)"
    and "GetResponseInfo t = Some ri"
    and "mset order = mset pending"
  shows "(\<exists>jf. run_callbacks r security_state options order j1 = Some jf
                   \<and> headers_complete_calls jf
                       = c0 @ [CallNotifyHeadersComplete 0
                                 (inside @ map (stored_entry options) order)]
                   \<and> maybe_stored_cookies jf
                       = (if IsReadyToRestartForAuth t then []
                          else inside @ map (stored_entry options) order)
                   \<and> num_cookie_lines_left jf = 0)
                 \<and> (\<forall>fired rest. order = fired @ rest \<and> rest \<noteq> [] \<longrightarrow>
                       (\<exists>jm. run_callbacks r security_state options fired j1 = Some jm
                          \<and> headers_complete_calls jm = c0
                          \<and> num_cookie_lines_left jm = int (length rest)))"
proof (cases "pending = []")
  case True
  then have "order = []" using assms(3) by simp
  then show ?thesis using assms(1) True by simp
next
  case False
  have len: "length order = length pending"
    using assms(3) by (rule mset_eq_length)
  have ne: "order \<noteq> []" using False len by auto
  have c: "headers_complete_calls j1 = c0"
    and l: "set_cookie_access_result_list j1 = inside"
    and n: "num_cookie_lines_left j1 = int (length order)"
    and t: "transaction j1 = Some t"
    using assms(1) False len by simp_all
  have final: "\<exists>jf. run_callbacks r security_state options order j1 = Some jf
                   \<and> headers_complete_calls jf
                       = c0 @ [CallNotifyHeadersComplete 0
                                 (inside @ map (stored_entry options) order)]
                   \<and> maybe_stored_cookies jf
                       = (if IsReadyToRestartForAuth t then []
                          else inside @ map (stored_entry options) order)
                   \<and> num_cookie_lines_left jf = 0"
    using run_callbacks_all [OF n ne t assms(2), of r security_state options]
    by (auto simp add: l c)
  have early: "\<forall>fired rest. order = fired @ rest \<and> rest \<noteq> [] \<longrightarrow>
                       (\<exists>jm. run_callbacks r security_state options fired j1 = Some jm
                          \<and> headers_complete_calls jm = c0
                          \<and> num_cookie_lines_left jm = int (length rest))"
  proof (intro allI impI)
    fix fired rest
    assume h: "order = fired @ rest \<and> rest \<noteq> []"
    have n': "num_cookie_lines_left j1 = int (length fired) + int (length rest)"
      using n h by simp
    have k: "0 < int (length rest)" using h by simp
    from run_callbacks_waiting [OF n' k, of r security_state options]
    show "\<exists>jm. run_callbacks r security_state options fired j1 = Some jm
                          \<and> headers_complete_calls jm = c0
                          \<and> num_cookie_lines_left jm = int (length rest)"
      by (auto simp add: c)
  qed
  from final early show ?thesis by blast
qed

text \<open>
  C1: for a response with any number of Set-Cookie lines, handed to
  \<open>SaveCookiesAndNotifyHeadersComplete\<close> with result OK, \<open>NotifyHeadersComplete()\<close> is
  invoked exactly once, with the counter at zero, once the loop has ended and every callback
  the jar has kept has run, in whatever order they run; while a callback is outstanding it is
  not invoked and the counter is the number of outstanding callbacks. The list it finds holds
  the results stored inside the loop followed by the ones stored later, one per line when
  cookies are saved, and is empty when there is no Set-Cookie line; the request keeps that
  list, unless the transaction is ready to restart for authentication, in which case the
  restart clears it.
\<close>

theorem headers_complete_exactly_once:
  assumes "num_cookie_lines_left j = 0"
    and "set_cookie_access_result_list j = []"
    and "transaction j = Some t"
    and "GetResponseInfo t = Some ri"
    and "GetResponseHeaders j = Some h"
    and "create_consistent e (EnumerateHeader ''Set-Cookie'' h)"
  shows "\<exists>j1 pending inside.
           SaveCookiesAndNotifyHeadersComplete r security_state e options OK j
             = Some (j1, pending)
           \<and> (\<forall>order. mset order = mset pending \<longrightarrow>
                 (\<exists>jf. run_callbacks r security_state options order j1 = Some jf
                   \<and> headers_complete_calls jf
                       = headers_complete_calls j @ [CallNotifyHeadersComplete 0
                                 (inside @ map (stored_entry options) order)]
                   \<and> maybe_stored_cookies jf
                       = (if IsReadyToRestartForAuth t then []
                          else inside @ map (stored_entry options) order)
                   \<and> num_cookie_lines_left jf = 0)
                 \<and> (\<forall>fired rest. order = fired @ rest \<and> rest \<noteq> [] \<longrightarrow>
                       (\<exists>jm. run_callbacks r security_state options fired j1 = Some jm
                          \<and> headers_complete_calls jm = headers_complete_calls j
                          \<and> num_cookie_lines_left jm = int (length rest))))
           \<and> (request_info_load_flags j AND LOAD_DO_NOT_SAVE_COOKIES e = 0 \<and> has_cookie_store r
                \<longrightarrow> length inside + length pending
                      = length (EnumerateHeader ''Set-Cookie'' h))
           \<and> (EnumerateHeader ''Set-Cookie'' h = [] \<longrightarrow> pending = [] \<and> inside = [])
           \<and> (pending \<noteq> [] \<longrightarrow> set_cookie_access_result_list j1 = inside)"
proof -
  let ?ls = "EnumerateHeader ''Set-Cookie'' h"
  let ?saves = "request_info_load_flags j AND LOAD_DO_NOT_SAVE_COOKIES e = 0 \<and> has_cookie_store r"
  have "\<exists>j1 pending inside.
          SaveCookiesAndNotifyHeadersComplete r security_state e options OK j
            = Some (j1, pending)
          \<and> (if pending = []
               then headers_complete_calls j1 = headers_complete_calls j @ [CallNotifyHeadersComplete 0 inside]
                    \<and> maybe_stored_cookies j1
                        = (if IsReadyToRestartForAuth t then [] else inside)
                    \<and> num_cookie_lines_left j1 = 0
               else headers_complete_calls j1 = headers_complete_calls j
                    \<and> set_cookie_access_result_list j1 = inside
                    \<and> num_cookie_lines_left j1 = int (length pending)
                    \<and> transaction j1 = Some t)
          \<and> (?saves \<longrightarrow> length inside + length pending = length ?ls)
          \<and> (?ls = [] \<longrightarrow> pending = [] \<and> inside = [])"
  proof (cases ?saves)
    case False
    from NotifyHeadersComplete_effect [OF assms(3,4), of r security_state]
    obtain j' where n: "NotifyHeadersComplete r security_state j = Some j'"
      and c: "headers_complete_calls j'
               = headers_complete_calls j
                 @ [CallNotifyHeadersComplete (num_cookie_lines_left j)
                      (set_cookie_access_result_list j)]"
      and z: "num_cookie_lines_left j' = num_cookie_lines_left j"
      and m: "maybe_stored_cookies j'
               = (if IsReadyToRestartForAuth t then [] else set_cookie_access_result_list j)"
      by blast
    have res: "SaveCookiesAndNotifyHeadersComplete r security_state e options OK j
                 = Some (j', [])"
      using False assms(1) n by (auto simp add: SaveCookiesAndNotifyHeadersComplete_def)
    show ?thesis
      by (rule exI [of _ j'], rule exI [of _ "[]"], rule exI [of _ "[]"])
         (simp add: res c z m assms(1,2) False)
  next
    case True
    let ?j0 = "j\<lparr>num_cookie_lines_left := 1\<rparr>"
    have n0: "num_cookie_lines_left ?j0
                = 1 + int (length ([]::CookieAndLineWithAccessResult list))"
      by simp
    from cookie_loop_invariant [OF assms(6) n0, of r security_state options 0]
    obtain j' pending where
      loop: "cookie_loop r security_state e options 0 ?ls (?j0, []) = Some (j', pending)"
      and n: "num_cookie_lines_left j' = 1 + int (length pending)"
      and c: "headers_complete_calls j' = headers_complete_calls j"
      and t': "transaction j' = Some t"
      and len: "length (set_cookie_access_result_list j') + length pending = length ?ls"
      using assms(2,3) by (auto simp add: headers_complete_calls_updates)
    define j2 where "j2 = j'\<lparr>num_cookie_lines_left := num_cookie_lines_left j' - 1\<rparr>"
    define inside where "inside = set_cookie_access_result_list j'"
    have f2: "num_cookie_lines_left j2 = int (length pending)"
      "headers_complete_calls j2 = headers_complete_calls j"
      "set_cookie_access_result_list j2 = inside"
      "transaction j2 = Some t"
      by (simp_all add: j2_def n c t' inside_def headers_complete_calls_updates)
    have cnt: "?saves \<longrightarrow> length inside + length pending = length ?ls"
      using len by (simp add: inside_def)
    have empty: "?ls = [] \<longrightarrow> pending = [] \<and> inside = []"
      using len by (auto simp add: inside_def)
    have save: "SaveCookiesAndNotifyHeadersComplete r security_state e options OK j =
                  (if num_cookie_lines_left j2 = 0
                   then (case NotifyHeadersComplete r security_state j2 of
                           None \<Rightarrow> None
                         | Some j3 \<Rightarrow> Some (j3, pending))
                   else Some (j2, pending))"
      using True assms(1,5) loop
      by (simp add: SaveCookiesAndNotifyHeadersComplete_def Let_def j2_def)
    show ?thesis
    proof (cases "pending = []")
      case True
      from NotifyHeadersComplete_effect [OF f2(4) assms(4), of r security_state]
      obtain j3 where n3: "NotifyHeadersComplete r security_state j2 = Some j3"
        and c3: "headers_complete_calls j3
                 = headers_complete_calls j2
                   @ [CallNotifyHeadersComplete (num_cookie_lines_left j2)
                        (set_cookie_access_result_list j2)]"
        and z3: "num_cookie_lines_left j3 = num_cookie_lines_left j2"
        and m3: "maybe_stored_cookies j3
                 = (if IsReadyToRestartForAuth t then [] else set_cookie_access_result_list j2)"
        by blast
      have res: "SaveCookiesAndNotifyHeadersComplete r security_state e options OK j
                   = Some (j3, pending)"
        using True by (simp add: save f2 n3)
      have st: "(if pending = []
               then headers_complete_calls j3 = headers_complete_calls j @ [CallNotifyHeadersComplete 0 inside]
                    \<and> maybe_stored_cookies j3
                        = (if IsReadyToRestartForAuth t then [] else inside)
                    \<and> num_cookie_lines_left j3 = 0
               else headers_complete_calls j3 = headers_complete_calls j
                    \<and> set_cookie_access_result_list j3 = inside
                    \<and> num_cookie_lines_left j3 = int (length pending)
                    \<and> transaction j3 = Some t)"
        using True by (simp add: c3 z3 m3 f2)
      from res st cnt empty show ?thesis by blast
    next
      case False
      have res: "SaveCookiesAndNotifyHeadersComplete r security_state e options OK j
                   = Some (j2, pending)"
        using False by (simp add: save f2)
      have st: "(if pending = []
               then headers_complete_calls j2 = headers_complete_calls j @ [CallNotifyHeadersComplete 0 inside]
                    \<and> maybe_stored_cookies j2
                        = (if IsReadyToRestartForAuth t then [] else inside)
                    \<and> num_cookie_lines_left j2 = 0
               else headers_complete_calls j2 = headers_complete_calls j
                    \<and> set_cookie_access_result_list j2 = inside
                    \<and> num_cookie_lines_left j2 = int (length pending)
                    \<and> transaction j2 = Some t)"
        using False by (simp add: f2)
      from res st cnt empty show ?thesis by blast
    qed
  qed
  then obtain j1 pending inside where
    res: "SaveCookiesAndNotifyHeadersComplete r security_state e options OK j
            = Some (j1, pending)"
    and st: "(if pending = []
               then headers_complete_calls j1 = headers_complete_calls j @ [CallNotifyHeadersComplete 0 inside]
                    \<and> maybe_stored_cookies j1
                        = (if IsReadyToRestartForAuth t then [] else inside)
                    \<and> num_cookie_lines_left j1 = 0
               else headers_complete_calls j1 = headers_complete_calls j
                    \<and> set_cookie_access_result_list j1 = inside
                    \<and> num_cookie_lines_left j1 = int (length pending)
                    \<and> transaction j1 = Some t)"
    and cnt: "?saves \<longrightarrow> length inside + length pending = length ?ls"
    and empty: "?ls = [] \<longrightarrow> pending = [] \<and> inside = []"
    by blast
  have all: "\<forall>order. mset order = mset pending \<longrightarrow>
                 (\<exists>jf. run_callbacks r security_state options order j1 = Some jf
                   \<and> headers_complete_calls jf
                       = headers_complete_calls j @ [CallNotifyHeadersComplete 0
                                 (inside @ map (stored_entry options) order)]
                   \<and> maybe_stored_cookies jf
                       = (if IsReadyToRestartForAuth t then []
                          else inside @ map (stored_entry options) order)
                   \<and> num_cookie_lines_left jf = 0)
                 \<and> (\<forall>fired rest. order = fired @ rest \<and> rest \<noteq> [] \<longrightarrow>
                       (\<exists>jm. run_callbacks r security_state options fired j1 = Some jm
                          \<and> headers_complete_calls jm = headers_complete_calls j
                          \<and> num_cookie_lines_left jm = int (length rest)))"
  proof (intro allI impI)
    fix order assume "mset order = mset pending"
    from completions_in_any_order [OF st assms(4) this, of r security_state options]
    show "(\<exists>jf. run_callbacks r security_state options order j1 = Some jf
                   \<and> headers_complete_calls jf
                       = headers_complete_calls j @ [CallNotifyHeadersComplete 0
                                 (inside @ map (stored_entry options) order)]
                   \<and> maybe_stored_cookies jf
                       = (if IsReadyToRestartForAuth t then []
                          else inside @ map (stored_entry options) order)
                   \<and> num_cookie_lines_left jf = 0)
                 \<and> (\<forall>fired rest. order = fired @ rest \<and> rest \<noteq> [] \<longrightarrow>
                       (\<exists>jm. run_callbacks r security_state options fired j1 = Some jm
                          \<and> headers_complete_calls jm = headers_complete_calls j
                          \<and> num_cookie_lines_left jm = int (length rest)))" .
  qed
  have kept: "pending \<noteq> [] \<longrightarrow> set_cookie_access_result_list j1 = inside"
    using st by simp
  show ?thesis
    by (rule exI [of _ j1], rule exI [of _ pending], rule exI [of _ inside])
       (intro conjI; fact)
qed

lemma four_cookie_job_pre:
  "num_cookie_lines_left four_cookie_job = 0"
  "set_cookie_access_result_list four_cookie_job = []"
  "transaction four_cookie_job
     = Some \<lparr>GetResponseInfo = Some four_cookie_response, IsReadyToRestartForAuth = False\<rparr>"
  "GetResponseInfo \<lparr>GetResponseInfo = Some four_cookie_response, IsReadyToRestartForAuth = False\<rparr>
     = Some four_cookie_response"
  "GetResponseHeaders four_cookie_job = Some (headers four_cookie_response)"
  by (simp_all add: four_cookie_job_def job_after_start_def job_with_response_def
      URLRequestHttpJob_init_def GetResponseHeaders_def four_cookie_response_def)

lemma four_cookie_job_ready_pre:
  "num_cookie_lines_left (ready_to_restart four_cookie_job) = 0"
  "set_cookie_access_result_list (ready_to_restart four_cookie_job) = []"
  "transaction (ready_to_restart four_cookie_job)
     = Some \<lparr>GetResponseInfo = Some four_cookie_response, IsReadyToRestartForAuth = True\<rparr>"
  "GetResponseInfo \<lparr>GetResponseInfo = Some four_cookie_response, IsReadyToRestartForAuth = True\<rparr>
     = Some four_cookie_response"
  "GetResponseHeaders (ready_to_restart four_cookie_job) = Some (headers four_cookie_response)"
  by (simp_all add: ready_to_restart_def four_cookie_job_def job_after_start_def
      job_with_response_def URLRequestHttpJob_init_def GetResponseHeaders_def
      four_cookie_response_def)

lemma four_cookie_lines:
  "EnumerateHeader ''Set-Cookie'' (headers four_cookie_response)
     = [''bad'', ''inline'', ''late1'', ''late2'']"
  by (simp add: EnumerateHeader_def response_with_def set_cookie_lines_def
      four_cookie_response_def)

lemma four_cookie_consistent:
  "create_consistent cookie_env_example
     (EnumerateHeader ''Set-Cookie'' (headers four_cookie_response))"
  by (simp add: four_cookie_lines create_consistent_def cookie_env_example_def IsInclude_def
      status_include_def)

lemma four_cookie_flags:
  "request_info_load_flags four_cookie_job = 0"
  "request_info_load_flags (ready_to_restart four_cookie_job) = 0"
  by (simp_all add: ready_to_restart_def four_cookie_job_def job_after_start_def
      job_with_response_def URLRequestHttpJob_init_def)

lemma four_cookie_loop:
  assumes "set_cookie_access_result_list J = []"
  shows "cookie_loop request_example True cookie_env_example cookie_options_example 0
     [''bad'', ''inline'', ''late1'', ''late2''] (J\<lparr>num_cookie_lines_left := 1\<rparr>, [])
   = Some (J\<lparr>num_cookie_lines_left := 3, set_cookie_access_result_list := stored_inside\<rparr>,
           [later_callback ''late1'', later_callback ''late2''])"
  by (simp add: cookie_env_example_def cookie_options_example_def OnSetCookieResult_def Let_def
      IsInclude_def status_include_def cookie_named_def later_callback_def assms
      stored_inside_def)

lemma four_cookie_save:
  assumes "num_cookie_lines_left J = 0"
    and "set_cookie_access_result_list J = []"
    and "request_info_load_flags J = 0"
    and "GetResponseHeaders J = Some (headers four_cookie_response)"
  shows "SaveCookiesAndNotifyHeadersComplete request_example True cookie_env_example
     cookie_options_example OK J
   = Some (J\<lparr>num_cookie_lines_left := 2, set_cookie_access_result_list := stored_inside\<rparr>,
           [later_callback ''late1'', later_callback ''late2''])"
proof -
  have store: "has_cookie_store request_example"
    by (simp add: request_example_def)
  have flag: "LOAD_DO_NOT_SAVE_COOKIES cookie_env_example = 64"
    by (simp add: cookie_env_example_def)
  show ?thesis
    by (simp add: SaveCookiesAndNotifyHeadersComplete_def assms four_cookie_lines
        four_cookie_loop store flag Let_def del: cookie_loop.simps)
qed

lemma stored_entry_example:
  "stored_entry cookie_options_example cb = cb"
  by (cases cb) (simp add: stored_entry_def cookie_options_example_def)

theorem headers_complete_exactly_once_witness:
  "headers_complete_calls
     (the (run_callbacks request_example True cookie_options_example
             [later_callback ''late2'', later_callback ''late1'']
             (four_cookie_job\<lparr>num_cookie_lines_left := 2,
                               set_cookie_access_result_list := stored_inside\<rparr>)))
   = [CallNotifyHeadersComplete 0
        (stored_inside @ [later_callback ''late2'', later_callback ''late1''])]
   \<and> maybe_stored_cookies
       (the (run_callbacks request_example True cookie_options_example
               [later_callback ''late2'', later_callback ''late1'']
               (four_cookie_job\<lparr>num_cookie_lines_left := 2,
                                 set_cookie_access_result_list := stored_inside\<rparr>)))
     = stored_inside @ [later_callback ''late2'', later_callback ''late1'']
   \<and> headers_complete_calls
       (the (run_callbacks request_example True cookie_options_example
               [later_callback ''late2'']
               (four_cookie_job\<lparr>num_cookie_lines_left := 2,
                                 set_cookie_access_result_list := stored_inside\<rparr>))) = []
   \<and> headers_complete_calls
       (the (run_callbacks request_example True cookie_options_example
               [later_callback ''late2'', later_callback ''late1'']
               ((ready_to_restart four_cookie_job)
                  \<lparr>num_cookie_lines_left := 2,
                   set_cookie_access_result_list := stored_inside\<rparr>)))
     = [CallNotifyHeadersComplete 0
          (stored_inside @ [later_callback ''late2'', later_callback ''late1''])]
   \<and> maybe_stored_cookies
       (the (run_callbacks request_example True cookie_options_example
               [later_callback ''late2'', later_callback ''late1'']
               ((ready_to_restart four_cookie_job)
                  \<lparr>num_cookie_lines_left := 2,
                   set_cookie_access_result_list := stored_inside\<rparr>))) = []"
proof -
  let ?order = "[later_callback ''late2'', later_callback ''late1'']"
  have gen: "headers_complete_calls
               (the (run_callbacks request_example True cookie_options_example ?order
                  (J\<lparr>num_cookie_lines_left := 2,
                     set_cookie_access_result_list := stored_inside\<rparr>)))
             = [CallNotifyHeadersComplete 0 (stored_inside @ ?order)]
           \<and> maybe_stored_cookies
               (the (run_callbacks request_example True cookie_options_example ?order
                  (J\<lparr>num_cookie_lines_left := 2,
                     set_cookie_access_result_list := stored_inside\<rparr>)))
             = (if IsReadyToRestartForAuth t then [] else stored_inside @ ?order)
           \<and> headers_complete_calls
               (the (run_callbacks request_example True cookie_options_example
                  [later_callback ''late2'']
                  (J\<lparr>num_cookie_lines_left := 2,
                     set_cookie_access_result_list := stored_inside\<rparr>))) = []"
    if pre: "num_cookie_lines_left J = 0" "set_cookie_access_result_list J = []"
      "transaction J = Some t" "GetResponseInfo t = Some four_cookie_response"
      "GetResponseHeaders J = Some (headers four_cookie_response)"
      and flags: "request_info_load_flags J = 0"
      and log: "headers_complete_calls J = []"
    for J t
  proof -
    from headers_complete_exactly_once [OF pre four_cookie_consistent,
           of request_example True cookie_options_example]
    obtain j1 pending inside where
      res: "SaveCookiesAndNotifyHeadersComplete request_example True cookie_env_example
              cookie_options_example OK J = Some (j1, pending)"
      and all: "\<forall>order. mset order = mset pending \<longrightarrow>
                 (\<exists>jf. run_callbacks request_example True cookie_options_example order j1
                         = Some jf
                   \<and> headers_complete_calls jf
                       = headers_complete_calls J
                         @ [CallNotifyHeadersComplete 0
                              (inside @ map (stored_entry cookie_options_example) order)]
                   \<and> maybe_stored_cookies jf
                       = (if IsReadyToRestartForAuth t then []
                          else inside @ map (stored_entry cookie_options_example) order)
                   \<and> num_cookie_lines_left jf = 0)
                 \<and> (\<forall>fired rest. order = fired @ rest \<and> rest \<noteq> [] \<longrightarrow>
                       (\<exists>jm. run_callbacks request_example True cookie_options_example
                                fired j1 = Some jm
                          \<and> headers_complete_calls jm = headers_complete_calls J
                          \<and> num_cookie_lines_left jm = int (length rest)))"
      and kept: "pending \<noteq> [] \<longrightarrow> set_cookie_access_result_list j1 = inside"
      by blast
    have j1: "j1 = J\<lparr>num_cookie_lines_left := 2,
                      set_cookie_access_result_list := stored_inside\<rparr>"
      and pending: "pending = [later_callback ''late1'', later_callback ''late2'']"
      using res by (simp_all add: four_cookie_save [OF pre(1,2) flags pre(5)])
    have inside: "inside = stored_inside"
      using kept by (simp add: pending j1)
    have m: "mset ?order = mset pending"
      by (simp add: pending)
    note at_order = all [rule_format, OF m]
    from at_order [THEN conjunct1]
    obtain jf where "run_callbacks request_example True cookie_options_example ?order j1
                       = Some jf"
      and "headers_complete_calls jf
             = [CallNotifyHeadersComplete 0 (stored_inside @ ?order)]"
      and "maybe_stored_cookies jf
             = (if IsReadyToRestartForAuth t then [] else stored_inside @ ?order)"
      by (auto simp add: inside stored_entry_example log)
    moreover
    from at_order [THEN conjunct2, rule_format,
           of "[later_callback ''late2'']" "[later_callback ''late1'']"]
    obtain jm where "run_callbacks request_example True cookie_options_example
                       [later_callback ''late2''] j1 = Some jm"
      and "headers_complete_calls jm = []"
      by (auto simp add: log)
    ultimately show ?thesis
      by (simp add: j1)
  qed
  have log: "headers_complete_calls four_cookie_job = []"
    "headers_complete_calls (ready_to_restart four_cookie_job) = []"
    by (simp_all add: headers_complete_calls_def ready_to_restart_def four_cookie_job_def
        job_after_start_def job_with_response_def URLRequestHttpJob_init_def)
  from gen [OF four_cookie_job_pre four_cookie_flags(1) log(1)]
       gen [OF four_cookie_job_ready_pre four_cookie_flags(2) log(2)]
  show ?thesis by simp
qed

section \<open>Properties: the headers built by Start\<close>

lemmas header_name_defs =
  kReferer_def kUserAgent_def kAcceptEncoding_def kAcceptLanguage_def kRange_def kCookie_def

lemma AddExtraHeaders_other:
  assumes "k \<noteq> kAcceptEncoding" and "k \<noteq> kAcceptLanguage"
  shows "AddExtraHeaders r h k = h k"
  using assms
  by (simp add: AddExtraHeaders_def Let_def SetHeader_def SetHeaderIfMissing_def HasHeader_def
      split: option.splits)

lemma AddExtraHeaders_keeps:
  "AddExtraHeaders r h ''Referer'' = h ''Referer''"
  "AddExtraHeaders r h ''User-Agent'' = h ''User-Agent''"
  "AddExtraHeaders r h ''Cookie'' = h ''Cookie''"
  "AddExtraHeaders r h ''X-Forwarded-For'' = h ''X-Forwarded-For''"
  by (simp_all add: AddExtraHeaders_other header_name_defs)

lemma Start_extra_headers:
  "extra_headers (Start r j) = Start_headers r (url r) (extra_headers j)"
  by (simp add: Start_def AddCookieHeaderAndStart_def Let_def)

lemma Start_headers_UserAgent:
  "Start_headers r u h kUserAgent =
     (if find_in (host u) ''addons.opera.com'' then Some ua_addons_opera
      else if find_in (host u) ''chrome.google.com'' then Some ua_chrome_google
      else if find_in (host u) ''web.whatsapp.com'' then Some ua_web_whatsapp
      else if find_in (host u) ''messenger.com'' then Some ua_messenger
      else if find_in (host u) ''facebook.com'' then Some ua_facebook
      else if find_in (host u) ''news.google.com'' \<and> find_in (path u) news_google_path
      then Some ua_news_google
      else (case h kUserAgent of
              Some v \<Rightarrow> Some v
            | None \<Rightarrow> Some (case http_user_agent_settings r of
                              Some settings \<Rightarrow> GetUserAgent settings | None \<Rightarrow> [])))"
  by (simp add: Start_headers_def Let_def AddExtraHeaders_keeps header_name_defs
      SetHeader_def SetHeaderIfMissing_def RemoveHeader_def split: option.splits)

lemma Start_headers_Referer:
  "Start_headers r u h kReferer =
     (if find_in (host u) ''amazon'' \<and> find_in (query u) ''kbdirect'' then None
      else if is_valid (referrer r) then Some (spec (referrer r)) else None)"
  by (simp add: Start_headers_def Let_def AddExtraHeaders_keeps header_name_defs
      SetHeader_def SetHeaderIfMissing_def RemoveHeader_def)

lemma Start_headers_Cookie:
  "Start_headers r u h kCookie =
     (if \<not> find_in (host u) ''addons.opera.com'' \<and> \<not> find_in (host u) ''chrome.google.com''
         \<and> \<not> find_in (host u) ''web.whatsapp.com'' \<and> \<not> find_in (host u) ''messenger.com''
         \<and> \<not> find_in (host u) ''facebook.com''
         \<and> find_in (host u) ''news.google.com'' \<and> find_in (path u) news_google_path
      then Some news_google_cookie else h kCookie)"
  by (simp add: Start_headers_def Let_def AddExtraHeaders_keeps header_name_defs
      SetHeader_def SetHeaderIfMissing_def RemoveHeader_def)

lemma Start_headers_X_Forwarded_For:
  "Start_headers r u h ''X-Forwarded-For'' =
     (if find_in (host u) ''washingtonpost.com'' then Some ''1.1.1.1''
      else h ''X-Forwarded-For'')"
  by (simp add: Start_headers_def Let_def AddExtraHeaders_keeps header_name_defs
      SetHeader_def SetHeaderIfMissing_def RemoveHeader_def)

lemma AddExtraHeaders_AcceptEncoding:
  "AddExtraHeaders r h kAcceptEncoding =
     (case h kAcceptEncoding of
        Some v \<Rightarrow> Some v
      | None \<Rightarrow>
          if h kRange \<noteq> None then Some ''identity''
          else if (if Supports r TYPE_GZIP then [''gzip''] else [])
                  @ (if Supports r TYPE_DEFLATE then [''deflate''] else [])
                  @ (if enable_brotli r \<and> Supports r TYPE_BROTLI
                        \<and> (SchemeIsCryptographic (url r) \<or> IsLocalhost (url r))
                     then [''br''] else []) \<noteq> []
          then Some (JoinString
                 ((if Supports r TYPE_GZIP then [''gzip''] else [])
                  @ (if Supports r TYPE_DEFLATE then [''deflate''] else [])
                  @ (if enable_brotli r \<and> Supports r TYPE_BROTLI
                        \<and> (SchemeIsCryptographic (url r) \<or> IsLocalhost (url r))
                     then [''br''] else [])) '', '')
          else None)"
proof (cases "h kAcceptEncoding")
  case None
  have ne: "kAcceptLanguage \<noteq> kAcceptEncoding" "kAcceptEncoding \<noteq> kAcceptLanguage"
    by (simp_all add: header_name_defs)
  show ?thesis
    unfolding AddExtraHeaders_def Let_def SetHeader_def SetHeaderIfMissing_def HasHeader_def
    using None ne
    by (cases "http_user_agent_settings r") (simp_all del: append.simps)
next
  case (Some v)
  have ne: "kAcceptLanguage \<noteq> kAcceptEncoding" "kAcceptEncoding \<noteq> kAcceptLanguage"
    by (simp_all add: header_name_defs)
  show ?thesis
    unfolding AddExtraHeaders_def Let_def SetHeader_def SetHeaderIfMissing_def HasHeader_def
    using Some ne
    by (cases "http_user_agent_settings r") simp_all
qed

lemma AddExtraHeaders_AcceptLanguage:
  "AddExtraHeaders r h kAcceptLanguage =
     (case h kAcceptLanguage of
        Some v \<Rightarrow> Some v
      | None \<Rightarrow>
          (case http_user_agent_settings r of
             None \<Rightarrow> None
           | Some settings \<Rightarrow>
               if kAcceptLanguageHeader_enabled r \<and> GetAcceptLanguage settings \<noteq> []
               then Some (GetAcceptLanguage settings) else None))"
proof -
  have ne: "kAcceptLanguage \<noteq> kAcceptEncoding" "kAcceptEncoding \<noteq> kAcceptLanguage"
    by (simp_all add: header_name_defs)
  show ?thesis
    unfolding AddExtraHeaders_def Let_def SetHeader_def SetHeaderIfMissing_def HasHeader_def
    using ne
    by (cases "http_user_agent_settings r"; cases "h kAcceptLanguage") simp_all
qed

lemma AddExtraHeaders_cong:
  assumes "h kAcceptEncoding = h' kAcceptEncoding"
    and "h kAcceptLanguage = h' kAcceptLanguage"
    and "h kRange = h' kRange"
  shows "AddExtraHeaders r h kAcceptEncoding = AddExtraHeaders r h' kAcceptEncoding"
    and "AddExtraHeaders r h kAcceptLanguage = AddExtraHeaders r h' kAcceptLanguage"
  using assms by (simp_all only: AddExtraHeaders_AcceptEncoding AddExtraHeaders_AcceptLanguage)

lemma Start_headers_factor:
  "\<exists>H. Start_headers r u h = AddExtraHeaders r H
       \<and> H kAcceptEncoding = h kAcceptEncoding
       \<and> H kAcceptLanguage = h kAcceptLanguage
       \<and> H kRange = h kRange"
  unfolding Start_headers_def Let_def
  by (rule exI, rule conjI, rule refl)
     (simp add: header_name_defs SetHeader_def SetHeaderIfMissing_def RemoveHeader_def)

lemma Start_headers_AcceptEncoding:
  "Start_headers r u h kAcceptEncoding = AddExtraHeaders r h kAcceptEncoding"
proof -
  obtain H where "Start_headers r u h = AddExtraHeaders r H"
    and "H kAcceptEncoding = h kAcceptEncoding"
    and "H kAcceptLanguage = h kAcceptLanguage"
    and "H kRange = h kRange"
    using Start_headers_factor by blast
  then show ?thesis
    using AddExtraHeaders_cong(1) [of H h r] by simp
qed

lemma Start_headers_AcceptLanguage:
  "Start_headers r u h kAcceptLanguage = AddExtraHeaders r h kAcceptLanguage"
proof -
  obtain H where "Start_headers r u h = AddExtraHeaders r H"
    and "H kAcceptEncoding = h kAcceptEncoding"
    and "H kAcceptLanguage = h kAcceptLanguage"
    and "H kRange = h kRange"
    using Start_headers_factor by blast
  then show ?thesis
    using AddExtraHeaders_cong(2) [of H h r] by simp
qed

text \<open>
  C2, as amended: after \<open>Start()\<close> the Referer header is the referrer's spec exactly when
  the referrer is valid and the request is not one whose host contains "amazon" and whose query
  contains "kbdirect", and is absent otherwise; for a host that matches none of the hard-coded
  User-Agent rules the User-Agent is the caller's when the caller supplied one and the default
  otherwise; Accept-Language is the caller's when supplied, and otherwise the default when the
  settings exist, the feature is on and the default is not empty; Accept-Encoding is the
  caller's when supplied, otherwise "identity" when a Range header is present, and otherwise
  the list of gzip, deflate and br that the request supports, br only when brotli is enabled
  and the URL is cryptographic or localhost, and no header when that list is empty.
\<close>

theorem Start_builds_headers:
  "extra_headers (Start r j) kReferer =
     (if find_in (host (url r)) ''amazon'' \<and> find_in (query (url r)) ''kbdirect'' then None
      else if is_valid (referrer r) then Some (spec (referrer r)) else None)
   \<and> (\<not> find_in (host (url r)) ''addons.opera.com''
        \<and> \<not> find_in (host (url r)) ''chrome.google.com''
        \<and> \<not> find_in (host (url r)) ''web.whatsapp.com''
        \<and> \<not> find_in (host (url r)) ''messenger.com''
        \<and> \<not> find_in (host (url r)) ''facebook.com''
        \<and> \<not> (find_in (host (url r)) ''news.google.com''
               \<and> find_in (path (url r)) news_google_path) \<longrightarrow>
        extra_headers (Start r j) kUserAgent =
          (case extra_headers j kUserAgent of
             Some v \<Rightarrow> Some v
           | None \<Rightarrow> Some (case http_user_agent_settings r of
                             Some settings \<Rightarrow> GetUserAgent settings | None \<Rightarrow> [])))
   \<and> extra_headers (Start r j) kAcceptLanguage =
       (case extra_headers j kAcceptLanguage of
          Some v \<Rightarrow> Some v
        | None \<Rightarrow>
            (case http_user_agent_settings r of
               None \<Rightarrow> None
             | Some settings \<Rightarrow>
                 if kAcceptLanguageHeader_enabled r \<and> GetAcceptLanguage settings \<noteq> []
                 then Some (GetAcceptLanguage settings) else None))
   \<and> extra_headers (Start r j) kAcceptEncoding =
       (case extra_headers j kAcceptEncoding of
          Some v \<Rightarrow> Some v
        | None \<Rightarrow>
            if extra_headers j kRange \<noteq> None then Some ''identity''
            else if (if Supports r TYPE_GZIP then [''gzip''] else [])
                    @ (if Supports r TYPE_DEFLATE then [''deflate''] else [])
                    @ (if enable_brotli r \<and> Supports r TYPE_BROTLI
                          \<and> (SchemeIsCryptographic (url r) \<or> IsLocalhost (url r))
                       then [''br''] else []) \<noteq> []
            then Some (JoinString
                   ((if Supports r TYPE_GZIP then [''gzip''] else [])
                    @ (if Supports r TYPE_DEFLATE then [''deflate''] else [])
                    @ (if enable_brotli r \<and> Supports r TYPE_BROTLI
                          \<and> (SchemeIsCryptographic (url r) \<or> IsLocalhost (url r))
                       then [''br''] else [])) '', '')
            else None)"
proof (intro conjI impI)
  show "extra_headers (Start r j) kReferer =
     (if find_in (host (url r)) ''amazon'' \<and> find_in (query (url r)) ''kbdirect'' then None
      else if is_valid (referrer r) then Some (spec (referrer r)) else None)"
    by (simp only: Start_extra_headers Start_headers_Referer)
next
  assume "\<not> find_in (host (url r)) ''addons.opera.com''
        \<and> \<not> find_in (host (url r)) ''chrome.google.com''
        \<and> \<not> find_in (host (url r)) ''web.whatsapp.com''
        \<and> \<not> find_in (host (url r)) ''messenger.com''
        \<and> \<not> find_in (host (url r)) ''facebook.com''
        \<and> \<not> (find_in (host (url r)) ''news.google.com''
               \<and> find_in (path (url r)) news_google_path)"
  then show "extra_headers (Start r j) kUserAgent =
          (case extra_headers j kUserAgent of
             Some v \<Rightarrow> Some v
           | None \<Rightarrow> Some (case http_user_agent_settings r of
                             Some settings \<Rightarrow> GetUserAgent settings | None \<Rightarrow> []))"
    by (auto simp add: Start_extra_headers Start_headers_UserAgent)
next
  show "extra_headers (Start r j) kAcceptLanguage =
       (case extra_headers j kAcceptLanguage of
          Some v \<Rightarrow> Some v
        | None \<Rightarrow>
            (case http_user_agent_settings r of
               None \<Rightarrow> None
             | Some settings \<Rightarrow>
                 if kAcceptLanguageHeader_enabled r \<and> GetAcceptLanguage settings \<noteq> []
                 then Some (GetAcceptLanguage settings) else None))"
    by (simp only: Start_extra_headers Start_headers_AcceptLanguage
        AddExtraHeaders_AcceptLanguage)
next
  show "extra_headers (Start r j) kAcceptEncoding =
       (case extra_headers j kAcceptEncoding of
          Some v \<Rightarrow> Some v
        | None \<Rightarrow>
            if extra_headers j kRange \<noteq> None then Some ''identity''
            else if (if Supports r TYPE_GZIP then [''gzip''] else [])
                    @ (if Supports r TYPE_DEFLATE then [''deflate''] else [])
                    @ (if enable_brotli r \<and> Supports r TYPE_BROTLI
                          \<and> (SchemeIsCryptographic (url r) \<or> IsLocalhost (url r))
                       then [''br''] else []) \<noteq> []
            then Some (JoinString
                   ((if Supports r TYPE_GZIP then [''gzip''] else [])
                    @ (if Supports r TYPE_DEFLATE then [''deflate''] else [])
                    @ (if enable_brotli r \<and> Supports r TYPE_BROTLI
                          \<and> (SchemeIsCryptographic (url r) \<or> IsLocalhost (url r))
                       then [''br''] else [])) '', '')
            else None)"
    by (simp only: Start_extra_headers Start_headers_AcceptEncoding
        AddExtraHeaders_AcceptEncoding)
qed

text \<open>
  C9: for a request whose host contains "addons.opera.com", "chrome.google.com",
  "web.whatsapp.com", "messenger.com" or "facebook.com", or contains "news.google.com" with the
  hard-coded path substring, \<open>Start()\<close> leaves one of six fixed strings in the User-Agent
  header, the one of the first rule that matches, whatever the caller supplied.
\<close>

theorem Start_overrides_user_agent:
  "(find_in (host (url r)) ''addons.opera.com'' \<longrightarrow>
      extra_headers (Start r j) kUserAgent = Some ua_addons_opera)
   \<and> (\<not> find_in (host (url r)) ''addons.opera.com''
        \<and> find_in (host (url r)) ''chrome.google.com'' \<longrightarrow>
        extra_headers (Start r j) kUserAgent = Some ua_chrome_google)
   \<and> (\<not> find_in (host (url r)) ''addons.opera.com''
        \<and> \<not> find_in (host (url r)) ''chrome.google.com''
        \<and> find_in (host (url r)) ''web.whatsapp.com'' \<longrightarrow>
        extra_headers (Start r j) kUserAgent = Some ua_web_whatsapp)
   \<and> (\<not> find_in (host (url r)) ''addons.opera.com''
        \<and> \<not> find_in (host (url r)) ''chrome.google.com''
        \<and> \<not> find_in (host (url r)) ''web.whatsapp.com''
        \<and> find_in (host (url r)) ''messenger.com'' \<longrightarrow>
        extra_headers (Start r j) kUserAgent = Some ua_messenger)
   \<and> (\<not> find_in (host (url r)) ''addons.opera.com''
        \<and> \<not> find_in (host (url r)) ''chrome.google.com''
        \<and> \<not> find_in (host (url r)) ''web.whatsapp.com''
        \<and> \<not> find_in (host (url r)) ''messenger.com''
        \<and> find_in (host (url r)) ''facebook.com'' \<longrightarrow>
        extra_headers (Start r j) kUserAgent = Some ua_facebook)
   \<and> (\<not> find_in (host (url r)) ''addons.opera.com''
        \<and> \<not> find_in (host (url r)) ''chrome.google.com''
        \<and> \<not> find_in (host (url r)) ''web.whatsapp.com''
        \<and> \<not> find_in (host (url r)) ''messenger.com''
        \<and> \<not> find_in (host (url r)) ''facebook.com''
        \<and> find_in (host (url r)) ''news.google.com''
        \<and> find_in (path (url r)) news_google_path \<longrightarrow>
        extra_headers (Start r j) kUserAgent = Some ua_news_google)
   \<and> (find_in (host (url r)) ''addons.opera.com''
        \<or> find_in (host (url r)) ''chrome.google.com''
        \<or> find_in (host (url r)) ''web.whatsapp.com''
        \<or> find_in (host (url r)) ''messenger.com''
        \<or> find_in (host (url r)) ''facebook.com''
        \<or> (find_in (host (url r)) ''news.google.com''
            \<and> find_in (path (url r)) news_google_path) \<longrightarrow>
        extra_headers (Start r j) kUserAgent
          \<in> {Some ua_addons_opera, Some ua_chrome_google, Some ua_web_whatsapp,
              Some ua_messenger, Some ua_facebook, Some ua_news_google})"
  by (simp only: Start_extra_headers Start_headers_UserAgent) auto

section \<open>Properties: fixed headers of Start, and the restart with authentication\<close>

lemma Start_privacy_mode:
  "request_info_privacy_mode (Start r j) = privacy_mode r"
  by (simp add: Start_def AddCookieHeaderAndStart_def Let_def)

lemma SetCookieHeaderAndStart_private:
  assumes "request_info_privacy_mode j \<noteq> PRIVACY_MODE_DISABLED"
  shows "extra_headers (SetCookieHeaderAndStart e options included excluded j) = extra_headers j"
  using assms
  by (simp add: SetCookieHeaderAndStart_def Let_def)

lemma SetCookieHeaderAndStart_headers:
  "extra_headers (SetCookieHeaderAndStart e options included excluded j) =
     (if request_info_privacy_mode j = PRIVACY_MODE_DISABLED
         \<and> fst (AnnotateAndMoveUserBlockedCookies e (included, excluded)) \<noteq> []
      then SetHeader kCookie
             (BuildCookieLine e (fst (AnnotateAndMoveUserBlockedCookies e (included, excluded))))
             (extra_headers j)
      else extra_headers j)"
  by (cases "AnnotateAndMoveUserBlockedCookies e (included, excluded)")
     (simp add: SetCookieHeaderAndStart_def Let_def)

text \<open>
  C10, as amended: a request whose host contains "news.google.com" and none of
  "addons.opera.com", "chrome.google.com", "web.whatsapp.com", "messenger.com" and
  "facebook.com", and whose path contains the hard-coded string, leaves \<open>Start()\<close> with the
  fixed Cookie header, whatever the privacy mode, and with privacy mode on the cookie-read
  callback leaves the headers as they are; a request whose host contains "washingtonpost.com"
  leaves it with X-Forwarded-For "1.1.1.1"; a request whose host contains "amazon" and whose
  query contains "kbdirect" leaves it with no Referer header.
\<close>

theorem Start_injects_fixed_headers:
  "(\<not> find_in (host (url r)) ''addons.opera.com''
      \<and> \<not> find_in (host (url r)) ''chrome.google.com''
      \<and> \<not> find_in (host (url r)) ''web.whatsapp.com''
      \<and> \<not> find_in (host (url r)) ''messenger.com''
      \<and> \<not> find_in (host (url r)) ''facebook.com''
      \<and> find_in (host (url r)) ''news.google.com''
      \<and> find_in (path (url r)) news_google_path \<longrightarrow>
      extra_headers (Start r j) kCookie = Some news_google_cookie)
   \<and> (find_in (host (url r)) ''washingtonpost.com'' \<longrightarrow>
        extra_headers (Start r j) ''X-Forwarded-For'' = Some ''1.1.1.1'')
   \<and> (find_in (host (url r)) ''amazon'' \<and> find_in (query (url r)) ''kbdirect'' \<longrightarrow>
        extra_headers (Start r j) kReferer = None)
   \<and> (privacy_mode r \<noteq> PRIVACY_MODE_DISABLED \<longrightarrow>
        extra_headers (SetCookieHeaderAndStart e options included excluded (Start r j))
          = extra_headers (Start r j))"
proof (intro conjI impI)
  assume "\<not> find_in (host (url r)) ''addons.opera.com''
      \<and> \<not> find_in (host (url r)) ''chrome.google.com''
      \<and> \<not> find_in (host (url r)) ''web.whatsapp.com''
      \<and> \<not> find_in (host (url r)) ''messenger.com''
      \<and> \<not> find_in (host (url r)) ''facebook.com''
      \<and> find_in (host (url r)) ''news.google.com''
      \<and> find_in (path (url r)) news_google_path"
  then show "extra_headers (Start r j) kCookie = Some news_google_cookie"
    by (simp add: Start_extra_headers Start_headers_Cookie)
next
  assume "find_in (host (url r)) ''washingtonpost.com''"
  then show "extra_headers (Start r j) ''X-Forwarded-For'' = Some ''1.1.1.1''"
    by (simp add: Start_extra_headers Start_headers_X_Forwarded_For)
next
  assume "find_in (host (url r)) ''amazon'' \<and> find_in (query (url r)) ''kbdirect''"
  then show "extra_headers (Start r j) kReferer = None"
    by (simp add: Start_extra_headers Start_headers_Referer)
next
  assume "privacy_mode r \<noteq> PRIVACY_MODE_DISABLED"
  then have "request_info_privacy_mode (Start r j) \<noteq> PRIVACY_MODE_DISABLED"
    by (simp add: Start_privacy_mode)
  then show "extra_headers (SetCookieHeaderAndStart e options included excluded (Start r j))
          = extra_headers (Start r j)"
    by (rule SetCookieHeaderAndStart_private)
qed

lemma Restart_fields:
  "response_info (RestartTransactionWithAuth r credentials j) = None"
  "override_response_headers (RestartTransactionWithAuth r credentials j) = None"
  "receive_headers_end (RestartTransactionWithAuth r credentials j) = None"
  "auth_credentials (RestartTransactionWithAuth r credentials j) = credentials"
  "request_info_privacy_mode (RestartTransactionWithAuth r credentials j)
     = request_info_privacy_mode j"
  "extra_headers (RestartTransactionWithAuth r credentials j)
     = RemoveHeader kCookie (extra_headers j)"
  "events (RestartTransactionWithAuth r credentials j)
     = events j @ [CallResetTimer,
         if has_cookie_store r \<and> allow_credentials r
         then CallGetCookieListWithOptionsAsync else CallStartTransaction]"
  by (simp_all add: RestartTransactionWithAuth_def AddCookieHeaderAndStart_def Let_def)

text \<open>
  C7: \<open>RestartTransactionWithAuth\<close> clears the response snapshot, the override headers and
  the headers-received time, removes the Cookie header and no other header, and goes on into
  \<open>AddCookieHeaderAndStart\<close> (the jar is asked when there is a cookie store and credentials
  are allowed, the transaction is started otherwise); after the jar's answer the Cookie header
  is the line built from the cookies the jar includes, or absent, and the other headers are
  still the ones from before the restart.
\<close>

theorem RestartTransactionWithAuth_effect:
  "response_info (RestartTransactionWithAuth r credentials j) = None
   \<and> override_response_headers (RestartTransactionWithAuth r credentials j) = None
   \<and> receive_headers_end (RestartTransactionWithAuth r credentials j) = None
   \<and> extra_headers (RestartTransactionWithAuth r credentials j) kCookie = None
   \<and> (\<forall>k. k \<noteq> kCookie \<longrightarrow>
         extra_headers (RestartTransactionWithAuth r credentials j) k = extra_headers j k)
   \<and> events (RestartTransactionWithAuth r credentials j)
       = events j @ [CallResetTimer,
           if has_cookie_store r \<and> allow_credentials r
           then CallGetCookieListWithOptionsAsync else CallStartTransaction]
   \<and> extra_headers
         (SetCookieHeaderAndStart e options included excluded
            (RestartTransactionWithAuth r credentials j)) kCookie
       = (if request_info_privacy_mode j = PRIVACY_MODE_DISABLED
             \<and> fst (AnnotateAndMoveUserBlockedCookies e (included, excluded)) \<noteq> []
          then Some (BuildCookieLine e
                       (fst (AnnotateAndMoveUserBlockedCookies e (included, excluded))))
          else None)
   \<and> (\<forall>k. k \<noteq> kCookie \<longrightarrow>
         extra_headers
           (SetCookieHeaderAndStart e options included excluded
              (RestartTransactionWithAuth r credentials j)) k = extra_headers j k)"
  by (simp add: Restart_fields SetCookieHeaderAndStart_headers RemoveHeader_def SetHeader_def)

lemma example_host_matches_no_rule:
  "\<not> find_in ''example.com'' ''addons.opera.com''"
  "\<not> find_in ''example.com'' ''chrome.google.com''"
  "\<not> find_in ''example.com'' ''web.whatsapp.com''"
  "\<not> find_in ''example.com'' ''messenger.com''"
  "\<not> find_in ''example.com'' ''facebook.com''"
  "\<not> find_in ''example.com'' ''news.google.com''"
  "\<not> find_in ''example.com'' ''amazon''"
  by simp_all

theorem Start_builds_headers_witness:
  "extra_headers
     (Start ((request_to (url_of ''https'' ''example.com'' ''/'' []))\<lparr>referrer := valid_referrer\<rparr>)
        (job_with_headers Map.empty)) kReferer = Some ''https://origin.example/page''
   \<and> extra_headers
       (Start ((request_to (url_of ''https'' ''example.com'' ''/'' []))\<lparr>referrer := valid_referrer\<rparr>)
          (job_with_headers Map.empty)) kUserAgent = Some ''DefaultAgent/1.0''
   \<and> extra_headers
       (Start ((request_to (url_of ''https'' ''example.com'' ''/'' []))\<lparr>referrer := valid_referrer\<rparr>)
          (job_with_headers Map.empty)) kAcceptLanguage = Some ''en-US,en''
   \<and> extra_headers
       (Start ((request_to (url_of ''https'' ''example.com'' ''/'' []))\<lparr>referrer := valid_referrer\<rparr>)
          (job_with_headers Map.empty)) kAcceptEncoding = Some ''gzip, deflate, br''
   \<and> extra_headers
       (Start (request_to (url_of ''http'' ''example.com'' ''/'' []))
          (job_with_headers [kRange \<mapsto> ''bytes=0-99'', kUserAgent \<mapsto> ''MyAgent/1.0'']))
       kAcceptEncoding = Some ''identity''
   \<and> extra_headers
       (Start (request_to (url_of ''http'' ''example.com'' ''/'' []))
          (job_with_headers [kRange \<mapsto> ''bytes=0-99'', kUserAgent \<mapsto> ''MyAgent/1.0'']))
       kUserAgent = Some ''MyAgent/1.0''
   \<and> extra_headers
       (Start (request_to (url_of ''http'' ''example.com'' ''/'' []))
          (job_with_headers [kRange \<mapsto> ''bytes=0-99'', kUserAgent \<mapsto> ''MyAgent/1.0'']))
       kReferer = None
   \<and> extra_headers
       (Start (request_to (url_of ''http'' ''example.com'' ''/'' [])) (job_with_headers Map.empty))
       kAcceptEncoding = Some ''gzip, deflate''"
  using Start_builds_headers
          [of "(request_to (url_of ''https'' ''example.com'' ''/'' []))\<lparr>referrer := valid_referrer\<rparr>"
              "job_with_headers Map.empty"]
        Start_builds_headers
          [of "request_to (url_of ''http'' ''example.com'' ''/'' [])"
              "job_with_headers [kRange \<mapsto> ''bytes=0-99'', kUserAgent \<mapsto> ''MyAgent/1.0'']"]
        Start_builds_headers
          [of "request_to (url_of ''http'' ''example.com'' ''/'' [])" "job_with_headers Map.empty"]
  by (simp add: request_to_def request_example_def url_of_def valid_referrer_def
      job_with_headers_def URLRequestHttpJob_init_def empty_GURL_def
      example_host_matches_no_rule SchemeIsCryptographic_def header_name_defs)

text \<open>
  C2 as stated fails for a request to an "amazon" host with "kbdirect" in the query and a valid
  referrer: no Referer header is sent.
\<close>

theorem Start_amazon_referer_counterexample:
  "is_valid (referrer ((request_to (url_of ''https'' ''www.amazon.com'' ''/dp'' ''kbdirect=1''))
                         \<lparr>referrer := valid_referrer\<rparr>))
   \<and> extra_headers
       (Start ((request_to (url_of ''https'' ''www.amazon.com'' ''/dp'' ''kbdirect=1''))
                 \<lparr>referrer := valid_referrer\<rparr>)
          (job_with_headers Map.empty)) kReferer = None"
  by (simp add: Start_extra_headers Start_headers_Referer request_to_def request_example_def
      url_of_def valid_referrer_def)

lemma facebook_host_rules:
  "\<not> find_in ''www.facebook.com'' ''addons.opera.com''"
  "\<not> find_in ''www.facebook.com'' ''chrome.google.com''"
  "\<not> find_in ''www.facebook.com'' ''web.whatsapp.com''"
  "\<not> find_in ''www.facebook.com'' ''messenger.com''"
  "find_in ''www.facebook.com'' ''facebook.com''"
  by simp_all

theorem Start_overrides_user_agent_witness:
  "extra_headers
     (Start (request_to (url_of ''https'' ''www.facebook.com'' ''/'' []))
        (job_with_headers [kUserAgent \<mapsto> ''MyAgent/1.0''])) kUserAgent = Some ua_facebook
   \<and> extra_headers
       (Start (request_to (url_of ''https'' ''addons.opera.com'' ''/'' []))
          (job_with_headers [kUserAgent \<mapsto> ''MyAgent/1.0''])) kUserAgent = Some ua_addons_opera"
  using Start_overrides_user_agent
          [of "request_to (url_of ''https'' ''www.facebook.com'' ''/'' [])"
              "job_with_headers [kUserAgent \<mapsto> ''MyAgent/1.0'']"]
        Start_overrides_user_agent
          [of "request_to (url_of ''https'' ''addons.opera.com'' ''/'' [])"
              "job_with_headers [kUserAgent \<mapsto> ''MyAgent/1.0'']"]
  by (simp add: request_to_def request_example_def url_of_def facebook_host_rules)

lemma news_host_rules:
  "\<not> find_in ''news.google.com'' ''addons.opera.com''"
  "\<not> find_in ''news.google.com'' ''chrome.google.com''"
  "\<not> find_in ''news.google.com'' ''web.whatsapp.com''"
  "\<not> find_in ''news.google.com'' ''messenger.com''"
  "\<not> find_in ''news.google.com'' ''facebook.com''"
  "find_in ''news.google.com'' ''news.google.com''"
  "find_in news_path news_google_path"
  by (simp_all add: news_path_def news_google_path_def)

lemma news_facebook_host_rules:
  "find_in ''news.google.com.facebook.com'' ''news.google.com''"
  "find_in ''news.google.com.facebook.com'' ''facebook.com''"
  by simp_all

theorem Start_injects_fixed_headers_witness:
  "extra_headers
     (Start ((request_to (url_of ''https'' ''news.google.com'' news_path []))
               \<lparr>privacy_mode := PRIVACY_MODE_ENABLED\<rparr>)
        (job_with_headers Map.empty)) kCookie = Some news_google_cookie
   \<and> extra_headers
       (SetCookieHeaderAndStart cookie_env_example cookie_options_example
          [(cookie_named ''sid'', status_include)] []
          (Start ((request_to (url_of ''https'' ''news.google.com'' news_path []))
                    \<lparr>privacy_mode := PRIVACY_MODE_ENABLED\<rparr>)
             (job_with_headers Map.empty))) kCookie = Some news_google_cookie
   \<and> extra_headers
       (Start (request_to (url_of ''https'' ''www.washingtonpost.com'' ''/'' []))
          (job_with_headers Map.empty)) ''X-Forwarded-For'' = Some ''1.1.1.1''
   \<and> extra_headers
       (Start ((request_to (url_of ''https'' ''www.amazon.com'' ''/dp'' ''kbdirect=1''))
                 \<lparr>referrer := valid_referrer\<rparr>)
          (job_with_headers Map.empty)) kReferer = None"
  using Start_injects_fixed_headers
          [of "(request_to (url_of ''https'' ''news.google.com'' news_path []))
                 \<lparr>privacy_mode := PRIVACY_MODE_ENABLED\<rparr>"
              "job_with_headers Map.empty" cookie_env_example cookie_options_example
              "[(cookie_named ''sid'', status_include)]" "[]"]
        Start_injects_fixed_headers
          [of "request_to (url_of ''https'' ''www.washingtonpost.com'' ''/'' [])"
              "job_with_headers Map.empty"]
        Start_injects_fixed_headers
          [of "(request_to (url_of ''https'' ''www.amazon.com'' ''/dp'' ''kbdirect=1''))
                 \<lparr>referrer := valid_referrer\<rparr>"
              "job_with_headers Map.empty"]
  by (simp add: request_to_def request_example_def url_of_def news_host_rules)

text \<open>
  C10 as stated fails for a host that contains "news.google.com" and also "facebook.com": the
  rule for "facebook.com" comes first in the chain and no Cookie header is set.
\<close>

theorem Start_news_cookie_counterexample:
  "find_in (host (url (request_to (url_of ''https'' ''news.google.com.facebook.com'' news_path []))))
     ''news.google.com''
   \<and> find_in (path (url (request_to (url_of ''https'' ''news.google.com.facebook.com'' news_path []))))
       news_google_path
   \<and> extra_headers
       (Start (request_to (url_of ''https'' ''news.google.com.facebook.com'' news_path []))
          (job_with_headers Map.empty)) kCookie = None"
  by (simp add: Start_extra_headers Start_headers_Cookie request_to_def request_example_def
      url_of_def news_host_rules news_facebook_host_rules job_with_headers_def
      URLRequestHttpJob_init_def)

theorem RestartTransactionWithAuth_effect_witness:
  "response_info (RestartTransactionWithAuth request_example (''user'', ''secret'')
                    job_before_restart) = None
   \<and> extra_headers (RestartTransactionWithAuth request_example (''user'', ''secret'')
                      job_before_restart) kCookie = None
   \<and> extra_headers (RestartTransactionWithAuth request_example (''user'', ''secret'')
                      job_before_restart) ''Accept'' = Some ''*/*''
   \<and> extra_headers
       (SetCookieHeaderAndStart cookie_env_example cookie_options_example
          [(cookie_named ''sid'', status_include)] []
          (RestartTransactionWithAuth request_example (''user'', ''secret'') job_before_restart))
       kCookie = Some ''sid''"
proof -
  note t = RestartTransactionWithAuth_effect
             [of request_example "(''user'', ''secret'')" job_before_restart
                 cookie_env_example cookie_options_example
                 "[(cookie_named ''sid'', status_include)]" "[]"]
  have ne: "''Accept'' \<noteq> kCookie" by (simp add: kCookie_def)
  have keep: "extra_headers (RestartTransactionWithAuth request_example (''user'', ''secret'')
                      job_before_restart) ''Accept'' = extra_headers job_before_restart ''Accept''"
    using t ne by blast
  have jar: "extra_headers
       (SetCookieHeaderAndStart cookie_env_example cookie_options_example
          [(cookie_named ''sid'', status_include)] []
          (RestartTransactionWithAuth request_example (''user'', ''secret'') job_before_restart))
       kCookie
       = (if request_info_privacy_mode job_before_restart = PRIVACY_MODE_DISABLED
             \<and> fst (AnnotateAndMoveUserBlockedCookies cookie_env_example
                  ([(cookie_named ''sid'', status_include)], [])) \<noteq> []
          then Some (BuildCookieLine cookie_env_example
                 (fst (AnnotateAndMoveUserBlockedCookies cookie_env_example
                    ([(cookie_named ''sid'', status_include)], []))))
          else None)"
    using t by blast
  show ?thesis
    using t keep jar
    by (simp add: job_before_restart_def job_407_def job_with_response_def
        URLRequestHttpJob_init_def cookie_env_example_def cookie_named_def kCookie_def)
qed

end
